theory Spec2Isabelle
  imports Complex_Main
begin

section \<open>Tensors and errors\<close>

text \<open>
  Exceptions of the Python code are values.  A float tensor entry is a real number
  (rounding is not modelled); the one value of the code that no real number stands for,
  the scalar tensor nan, is a constructor of its own.
\<close>

datatype error =
    RuntimeError
  | IndexError
  | TypeError
  | KeyError string
  | AssertionError
  | ZeroDivisionError
  | NotImplementedError
  | AttributeError

datatype scalar = Val real | NaN

text \<open>Addition of scalar tensors and division of a scalar tensor by a Python int.
  The only division by zero of the code divides the empty sum 0.0: the result is nan.\<close>

fun sadd :: "scalar \<Rightarrow> scalar \<Rightarrow> scalar" where
  "sadd (Val x) (Val y) = Val (x + y)"
| "sadd _ _ = NaN"

fun sdiv :: "scalar \<Rightarrow> nat \<Rightarrow> scalar" where
  "sdiv (Val x) n = (if n = 0 then NaN else Val (x / real n))"
| "sdiv NaN n = NaN"

text \<open>\<open>x.roll(s, 0)\<close>: the entry at index \<open>i\<close> moves to index \<open>(i + s) mod n\<close>.\<close>

definition roll :: "int \<Rightarrow> 'a list \<Rightarrow> 'a list" where
  "roll s xs = rotate (nat ((- s) mod int (length xs))) xs"

text \<open>\<open>m.gather(1, idx.unsqueeze(-1)).squeeze(-1)\<close> on a matrix given by its rows:
  one entry per index, taken from the row of the same position.  torch refuses an index
  tensor with more rows than the matrix and an index outside the row.\<close>

definition gather :: "real list list \<Rightarrow> int list \<Rightarrow> error + real list" where
  "gather m idx =
     (if length m < length idx then Inl RuntimeError
      else if list_all (\<lambda>(row, i). 0 \<le> i \<and> nat i < length row) (zip m idx)
      then Inr (map (\<lambda>(row, i). row ! nat i) (zip m idx))
      else Inl RuntimeError)"

text \<open>\<open>argmax\<close> of a vector: the index of the first maximal entry.\<close>

fun argmax_list :: "real list \<Rightarrow> nat" where
  "argmax_list [] = 0"
| "argmax_list [x] = 0"
| "argmax_list (x # y # ys) =
     (let j = argmax_list (y # ys) in if x < (y # ys) ! j then Suc j else 0)"

text \<open>\<open>m.argmax(-1)\<close>: row by row; an empty reduction dimension is refused.\<close>

definition argmax_rows :: "real list list \<Rightarrow> error + int list" where
  "argmax_rows m =
     (if list_all (\<lambda>row. row \<noteq> []) m then Inr (map (\<lambda>row. int (argmax_list row)) m)
      else Inl IndexError)"

text \<open>Broadcasting of two vectors: equal sizes, or one of them of size one.\<close>

definition broadcast2 :: "('a \<Rightarrow> 'b \<Rightarrow> 'c) \<Rightarrow> 'a list \<Rightarrow> 'b list \<Rightarrow> error + 'c list" where
  "broadcast2 f xs ys =
     (if length xs = length ys then Inr (map2 f xs ys)
      else if length xs = 1 then Inr (map (f (hd xs)) ys)
      else if length ys = 1 then Inr (map (\<lambda>x. f x (hd ys)) xs)
      else Inl RuntimeError)"

text \<open>\<open>F.mse_loss(input, target)\<close> with the default mean reduction; the mean of no
  element is nan.\<close>

definition mse_loss :: "real list \<Rightarrow> real list \<Rightarrow> error + scalar" where
  "mse_loss inp tgt =
     (case broadcast2 (\<lambda>x y. (x - y)\<^sup>2) inp tgt of
        Inl e \<Rightarrow> Inl e
      | Inr sq \<Rightarrow> Inr (if sq = [] then NaN else Val (sum_list sq / real (length sq))))"

section \<open>Episodes and models\<close>

text \<open>An episode (class \<open>Episode\<close>): the fields the losses read, one entry per timestep.\<close>

record ('o, 's) episode =
  actions :: "int list"
  observations :: "'o list"
  states :: "'s list"
  rewards :: "real list"
  dones :: "bool list"

text \<open>
  The module dictionary.  The representation and Q modules act row by row on a batch, so
  each is given by what it does to one row.  The history model is called with a sequence
  of input rows and an optional hidden state and returns the sequence of history features
  and the new hidden state.
\<close>

record ('o, 's, 'h) models =
  action_model :: "int \<Rightarrow> real list"
  action_model_dim :: nat
  observation_model :: "'o \<Rightarrow> real list"
  state_model :: "'s \<Rightarrow> real list"
  history_model :: "real list list \<Rightarrow> 'h option \<Rightarrow> real list list \<times> 'h"
  qh_model :: "real list \<Rightarrow> real list"
  qhs_model :: "real list \<Rightarrow> real list"

text \<open>
  \<open>RNNHistoryRepresentation\<close>, the history model that \<open>make_models_box2d\<close> builds, is a
  unidirectional recurrent network: a cell maps the hidden state and one input row to one
  output row and the next hidden state, and no hidden state given means the initial one.
\<close>

fun unroll :: "('h \<Rightarrow> real list \<Rightarrow> real list \<times> 'h) \<Rightarrow> 'h \<Rightarrow> real list list \<Rightarrow> real list list \<times> 'h" where
  "unroll cell h [] = ([], h)"
| "unroll cell h (x # xs) =
     (case cell h x of (y, h') \<Rightarrow>
        (case unroll cell h' xs of (ys, h'') \<Rightarrow> (y # ys, h'')))"

definition rnn :: "('h \<Rightarrow> real list \<Rightarrow> real list \<times> 'h) \<Rightarrow> 'h \<Rightarrow> real list list \<Rightarrow> 'h option \<Rightarrow> real list list \<times> 'h" where
  "rnn cell h0 inputs hidden = unroll cell (case hidden of None \<Rightarrow> h0 | Some h \<Rightarrow> h) inputs"

section \<open>\<open>POE_ADQN.episodic_loss\<close>\<close>

text \<open>Lines 50 to 57 of \<open>compute_q_values\<close>: the history features of an episode.
  The action features are rolled forward by one step and their first row is set to zero;
  on an episode of no timestep that assignment raises.\<close>

definition compute_history_features ::
  "('o, 's, 'h) models \<Rightarrow> int list \<Rightarrow> 'o list \<Rightarrow> error + real list list" where
  "compute_history_features m acts obs =
     (let action_features = roll 1 (map (action_model m) acts) in
      if action_features = [] then Inl IndexError
      else
        let action_features = action_features[0 := replicate (length (action_features ! 0)) 0];
            observation_features = map (observation_model m) obs
        in if length action_features \<noteq> length observation_features then Inl RuntimeError
           else Inr (fst (history_model m (map2 (@) action_features observation_features) None)))"

definition compute_q_values ::
  "('o, 's, 'h) models \<Rightarrow> int list \<Rightarrow> 'o list \<Rightarrow> 's list
     \<Rightarrow> error + (real list list \<times> real list list)" where
  "compute_q_values m acts obs sts =
     (case compute_history_features m acts obs of
        Inl e \<Rightarrow> Inl e
      | Inr history_features \<Rightarrow>
          let qh_values = map (qh_model m) history_features;
              state_features = map (state_model m) sts
          in if length history_features \<noteq> length state_features then Inl RuntimeError
             else Inr (qh_values,
                       map (qhs_model m) (map2 (@) history_features state_features)))"

text \<open>The regression target of \<open>qhs_loss\<close> (lines 77 to 84 and 88):
  \<open>rewards + discount * 0.0.where(dones, gather(target_qhs, argmax target_qh).roll(-1, 0))\<close>.\<close>

definition qhs_loss_target ::
  "('o, 's) episode \<Rightarrow> real \<Rightarrow> real list list \<Rightarrow> real list list \<Rightarrow> error + real list" where
  "qhs_loss_target ep discount target_qh_values target_qhs_values =
     (case argmax_rows target_qh_values of
        Inl e \<Rightarrow> Inl e
      | Inr best \<Rightarrow>
          (case gather target_qhs_values best of
             Inl e \<Rightarrow> Inl e
           | Inr picked \<Rightarrow>
               (case broadcast2 (\<lambda>d v. if d then 0 else v) (dones ep) (roll (- 1) picked) of
                  Inl e \<Rightarrow> Inl e
                | Inr qhs_values_bootstrap \<Rightarrow>
                    broadcast2 (\<lambda>r b. r + discount * b) (rewards ep) qhs_values_bootstrap)))"

definition qhs_loss ::
  "('o, 's) episode \<Rightarrow> real \<Rightarrow> real list list \<Rightarrow> real list list \<Rightarrow> real list list
     \<Rightarrow> real list list \<Rightarrow> error + scalar" where
  "qhs_loss ep discount qh_values qhs_values target_qh_values target_qhs_values =
     (case gather qhs_values (actions ep) of
        Inl e \<Rightarrow> Inl e
      | Inr qhs_taken \<Rightarrow>
          (case qhs_loss_target ep discount target_qh_values target_qhs_values of
             Inl e \<Rightarrow> Inl e
           | Inr target \<Rightarrow> mse_loss qhs_taken target))"

text \<open>The regression target of \<open>qh_loss\<close> (lines 114 to 121 and 125).\<close>

definition qh_loss_target ::
  "('o, 's) episode \<Rightarrow> real \<Rightarrow> real list list \<Rightarrow> real list list \<Rightarrow> error + real list" where
  "qh_loss_target ep discount target_qh_values target_qhs_values =
     (case argmax_rows target_qh_values of
        Inl e \<Rightarrow> Inl e
      | Inr best \<Rightarrow>
          (case gather target_qhs_values best of
             Inl e \<Rightarrow> Inl e
           | Inr picked \<Rightarrow>
               (case broadcast2 (\<lambda>d v. if d then 0 else v) (dones ep) (roll (- 1) picked) of
                  Inl e \<Rightarrow> Inl e
                | Inr qhs_values_bootstrap \<Rightarrow>
                    broadcast2 (\<lambda>r b. r + discount * b) (rewards ep) qhs_values_bootstrap)))"

definition qh_loss ::
  "('o, 's) episode \<Rightarrow> real \<Rightarrow> real list list \<Rightarrow> real list list \<Rightarrow> real list list
     \<Rightarrow> real list list \<Rightarrow> error + scalar" where
  "qh_loss ep discount qh_values qhs_values target_qh_values target_qhs_values =
     (case gather qh_values (actions ep) of
        Inl e \<Rightarrow> Inl e
      | Inr qh_taken \<Rightarrow>
          (case qh_loss_target ep discount target_qh_values target_qhs_values of
             Inl e \<Rightarrow> Inl e
           | Inr target \<Rightarrow> mse_loss qh_taken target))"

text \<open>The body of the loop of \<open>episodic_loss\<close>: the Q values of the online and of the
  target models, the two losses of the episode, and their half sum.\<close>

definition episode_head_losses ::
  "('o, 's, 'h) models \<Rightarrow> ('o, 's, 'h) models \<Rightarrow> real \<Rightarrow> ('o, 's) episode
     \<Rightarrow> error + (scalar \<times> scalar)" where
  "episode_head_losses ms target_ms discount ep =
     (case compute_q_values ms (actions ep) (observations ep) (states ep) of
        Inl e \<Rightarrow> Inl e
      | Inr (qh_values, qhs_values) \<Rightarrow>
          (case compute_q_values target_ms (actions ep) (observations ep) (states ep) of
             Inl e \<Rightarrow> Inl e
           | Inr (target_qh_values, target_qhs_values) \<Rightarrow>
               (case qhs_loss ep discount qh_values qhs_values target_qh_values target_qhs_values of
                  Inl e \<Rightarrow> Inl e
                | Inr a \<Rightarrow>
                    (case qh_loss ep discount qh_values qhs_values target_qh_values target_qhs_values of
                       Inl e \<Rightarrow> Inl e
                     | Inr b \<Rightarrow> Inr (a, b)))))"

definition episode_loss ::
  "('o, 's, 'h) models \<Rightarrow> ('o, 's, 'h) models \<Rightarrow> real \<Rightarrow> ('o, 's) episode \<Rightarrow> error + scalar" where
  "episode_loss ms target_ms discount ep =
     (case episode_head_losses ms target_ms discount ep of
        Inl e \<Rightarrow> Inl e
      | Inr (a, b) \<Rightarrow> Inr (sdiv (sadd a b) 2))"

text \<open>The loop: the losses of the episodes in order, stopping at the first exception.\<close>

fun episode_losses ::
  "('o, 's, 'h) models \<Rightarrow> ('o, 's, 'h) models \<Rightarrow> real \<Rightarrow> ('o, 's) episode list
     \<Rightarrow> error + scalar list" where
  "episode_losses ms target_ms discount [] = Inr []"
| "episode_losses ms target_ms discount (ep # eps) =
     (case episode_loss ms target_ms discount ep of
        Inl e \<Rightarrow> Inl e
      | Inr l \<Rightarrow>
          (case episode_losses ms target_ms discount eps of
             Inl e \<Rightarrow> Inl e
           | Inr ls \<Rightarrow> Inr (l # ls)))"

text \<open>\<open>sum(losses, start=torch.tensor(0.0)) / len(losses)\<close>.\<close>

definition episodic_loss ::
  "('o, 's, 'h) models \<Rightarrow> ('o, 's, 'h) models \<Rightarrow> real \<Rightarrow> ('o, 's) episode list
     \<Rightarrow> error + scalar" where
  "episodic_loss ms target_ms discount episodes =
     (case episode_losses ms target_ms discount episodes of
        Inl e \<Rightarrow> Inl e
      | Inr losses \<Rightarrow> Inr (sdiv (foldl sadd (Val 0) losses) (length losses)))"

section \<open>\<open>TargetPolicy\<close>\<close>

text \<open>
  The policy object: \<open>self.history_features\<close> and \<open>self.hidden\<close>, both \<open>None\<close> after
  \<open>__init__\<close>; \<open>self.models\<close> is the module dictionary of the algorithm and is passed
  along.  The history features are kept as the rows of the tensor that is left after the
  two \<open>squeeze(0)\<close>: one row, for a history model that returns one output per input.
\<close>

record 'h target_policy =
  history_features :: "real list list option"
  hidden :: "'h option"

definition TargetPolicy :: "'h target_policy" where
  "TargetPolicy = \<lparr>history_features = None, hidden = None\<rparr>"

text \<open>\<open>_update\<close>: one call of the history model on the sequence of the single input row
  \<open>cat([action_features, observation_features])\<close>, from the stored hidden state.\<close>

definition update ::
  "('o, 's, 'h) models \<Rightarrow> 'h target_policy \<Rightarrow> real list \<Rightarrow> real list \<Rightarrow> 'h target_policy" where
  "update m p action_features observation_features =
     (case history_model m [action_features @ observation_features] (hidden p) of
        (features, h) \<Rightarrow> \<lparr>history_features = Some features, hidden = Some h\<rparr>)"

definition reset :: "('o, 's, 'h) models \<Rightarrow> 'h target_policy \<Rightarrow> 'o \<Rightarrow> 'h target_policy" where
  "reset m p observation =
     update m p (replicate (action_model_dim m) 0) (observation_model m observation)"

definition step :: "('o, 's, 'h) models \<Rightarrow> 'h target_policy \<Rightarrow> int \<Rightarrow> 'o \<Rightarrow> 'h target_policy" where
  "step m p action observation =
     update m p (action_model m action) (observation_model m observation)"

text \<open>\<open>po_sample_action\<close>: \<open>qh_model(self.history_features).argmax().item()\<close>, the
  argmax over all entries; the Q model refuses \<open>None\<close>, argmax refuses no entry.\<close>

definition po_sample_action :: "('o, 's, 'h) models \<Rightarrow> 'h target_policy \<Rightarrow> error + int" where
  "po_sample_action m p =
     (case history_features p of
        None \<Rightarrow> Inl TypeError
      | Some features \<Rightarrow>
          (let q_values = concat (map (qh_model m) features) in
           if q_values = [] then Inl IndexError else Inr (int (argmax_list q_values))))"

text \<open>
  A run of the policy in an environment: the environment is reset to an observation and
  a privileged state, and every later timestep brings the action taken, the next
  observation and the next privileged state.  The policy is called with the actions and
  observations; \<open>policy_states\<close> lists the policy after each call.
\<close>

fun policy_steps ::
  "('o, 's, 'h) models \<Rightarrow> 'h target_policy \<Rightarrow> (int \<times> 'o \<times> 's) list \<Rightarrow> 'h target_policy list" where
  "policy_steps m p [] = []"
| "policy_steps m p ((a, ob, st) # rest) =
     (let p' = step m p a ob in p' # policy_steps m p' rest)"

fun policy_states ::
  "('o, 's, 'h) models \<Rightarrow> 'h target_policy \<Rightarrow> 'o \<times> 's \<Rightarrow> (int \<times> 'o \<times> 's) list
     \<Rightarrow> 'h target_policy list" where
  "policy_states m p (ob, st) rest = (let p' = reset m p ob in p' # policy_steps m p' rest)"

text \<open>What the policy is given of a timestep: the action and the observation.\<close>

definition visible :: "(int \<times> 'o \<times> 's) list \<Rightarrow> (int \<times> 'o) list" where
  "visible rest = map (\<lambda>(a, ob, st). (a, ob)) rest"

section \<open>\<open>POE_ADQN.make_models\<close>\<close>

text \<open>The environment: its spec id, its spaces and the number of its actions.\<close>

record 'sp gym_env =
  spec_id :: string
  action_space :: 'sp
  action_space_n :: nat
  state_space :: 'sp
  observation_space :: 'sp

text \<open>The modules \<open>make_models_box2d\<close> builds, by their constructor calls.\<close>

datatype 'sp module =
    OneHotRepresentation 'sp
  | IdentityRepresentation 'sp
  | RNNHistoryRepresentation "'sp module" "'sp module" nat string
  | make_module string string nat nat
  | LeakyReLU
  | Sequential "'sp module list"

text \<open>\<open>re.fullmatch\<close> of a pattern made of a literal name and \<open>\d+\<close>.  A character is a
  code point below 256, where the decimal digits are \<open>0\<close> to \<open>9\<close>.\<close>

definition is_digit :: "char \<Rightarrow> bool" where
  "is_digit c = (c \<in> set ''0123456789'')"

definition fullmatch_version :: "string \<Rightarrow> string \<Rightarrow> bool" where
  "fullmatch_version name s =
     (take (length name) s = name \<and> drop (length name) s \<noteq> []
      \<and> list_all is_digit (drop (length name) s))"

text \<open>\<open>make_models_box2d\<close>; \<open>dim_of\<close> reads the attribute \<open>dim\<close> of a representation.\<close>

definition make_models_box2d :: "('sp module \<Rightarrow> nat) \<Rightarrow> 'sp gym_env \<Rightarrow> (string \<times> 'sp module) list" where
  "make_models_box2d dim_of e =
     (let action_model = OneHotRepresentation (action_space e);
          state_model = IdentityRepresentation (state_space e);
          observation_model = IdentityRepresentation (observation_space e);
          history_model = RNNHistoryRepresentation action_model observation_model 128 ''tanh'';
          qh_model = Sequential
            [make_module ''linear'' ''leaky_relu'' (dim_of history_model) 512,
             LeakyReLU,
             make_module ''linear'' ''leaky_relu'' 512 256,
             LeakyReLU,
             make_module ''linear'' ''linear'' 256 (action_space_n e)];
          qhs_model = Sequential
            [make_module ''linear'' ''leaky_relu'' (dim_of history_model + dim_of state_model) 512,
             LeakyReLU,
             make_module ''linear'' ''leaky_relu'' 512 256,
             LeakyReLU,
             make_module ''linear'' ''linear'' 256 (action_space_n e)]
      in [(''action_model'', action_model),
          (''observation_model'', observation_model),
          (''state_model'', state_model),
          (''history_model'', history_model),
          (''qh_model'', qh_model),
          (''qhs_model'', qhs_model)])"

definition make_models ::
  "('sp module \<Rightarrow> nat) \<Rightarrow> 'sp gym_env \<Rightarrow> error + (string \<times> 'sp module) list" where
  "make_models dim_of e =
     (if fullmatch_version ''CartPole-v'' (spec_id e)
         \<or> fullmatch_version ''Acrobot-v'' (spec_id e)
         \<or> fullmatch_version ''LunarLander-v'' (spec_id e)
      then Inr (make_models_box2d dim_of e)
      else Inl NotImplementedError)"

text \<open>The ids the three patterns describe: the name, \<open>-v\<close> and one digit or more.\<close>

definition versioned :: "string \<Rightarrow> string \<Rightarrow> bool" where
  "versioned name s = (\<exists>ds. ds \<noteq> [] \<and> list_all is_digit ds \<and> s = name @ ''-v'' @ ds)"

section \<open>\<open>asym_rlpo.utils.config\<close>\<close>

text \<open>The values of a config: \<open>str | float | int | bool | None\<close>.\<close>

datatype basic = PyStr string | PyFloat real | PyInt int | PyBool bool | PyNone

type_synonym config_dict = "string \<rightharpoonup> basic"

text \<open>
  Objects live in a heap, since the properties of \<open>Config\<close> are about sharing: a dict
  object holds its contents, a \<open>Config\<close> object holds the address of the dict in its field
  \<open>_config\<close>.  A new object gets the next address.  The module-level variable \<open>_config\<close>
  is \<open>None\<close> or the address of a \<open>Config\<close>.
\<close>

datatype obj = DictObj config_dict | ConfigObj nat

record pystate =
  heap :: "obj list"
  module_config :: "nat option"

definition alloc :: "obj \<Rightarrow> pystate \<Rightarrow> nat \<times> pystate" where
  "alloc ob s = (length (heap s), s\<lparr>heap := heap s @ [ob]\<rparr>)"

text \<open>\<open>Config()\<close>: \<open>__init__\<close> stores a new empty dict.\<close>

definition Config_init :: "pystate \<Rightarrow> nat \<times> pystate" where
  "Config_init s = (case alloc (DictObj Map.empty) s of (d, s1) \<Rightarrow> alloc (ConfigObj d) s1)"

text \<open>\<open>self._config\<close> of the object at address \<open>c\<close>: the address of the dict and its
  contents; an address that holds no \<open>Config\<close> has no such attribute.\<close>

definition self_config :: "pystate \<Rightarrow> nat \<Rightarrow> error + (nat \<times> config_dict)" where
  "self_config s c =
     (if c < length (heap s) then
        (case heap s ! c of
           ConfigObj d \<Rightarrow>
             (if d < length (heap s) then
                (case heap s ! d of DictObj m \<Rightarrow> Inr (d, m) | ConfigObj _ \<Rightarrow> Inl AttributeError)
              else Inl AttributeError)
         | DictObj _ \<Rightarrow> Inl AttributeError)
      else Inl AttributeError)"

definition Config_clear :: "pystate \<Rightarrow> nat \<Rightarrow> error + pystate" where
  "Config_clear s c =
     (case self_config s c of
        Inl e \<Rightarrow> Inl e
      | Inr (d, m) \<Rightarrow> Inr (s\<lparr>heap := (heap s)[d := DictObj Map.empty]\<rparr>))"

definition Config_update :: "pystate \<Rightarrow> nat \<Rightarrow> config_dict \<Rightarrow> error + pystate" where
  "Config_update s c cd =
     (case self_config s c of
        Inl e \<Rightarrow> Inl e
      | Inr (d, m) \<Rightarrow> Inr (s\<lparr>heap := (heap s)[d := DictObj (m ++ cd)]\<rparr>))"

definition Config_get :: "pystate \<Rightarrow> nat \<Rightarrow> string \<Rightarrow> basic \<Rightarrow> error + basic" where
  "Config_get s c name dflt =
     (case self_config s c of
        Inl e \<Rightarrow> Inl e
      | Inr (d, m) \<Rightarrow> Inr (case m name of None \<Rightarrow> dflt | Some v \<Rightarrow> v))"

text \<open>\<open>_as_dict\<close>: \<open>self._config.copy()\<close>, a new dict object with the same contents.\<close>

definition Config_as_dict :: "pystate \<Rightarrow> nat \<Rightarrow> error + (nat \<times> pystate)" where
  "Config_as_dict s c =
     (case self_config s c of
        Inl e \<Rightarrow> Inl e
      | Inr (d, m) \<Rightarrow> Inr (alloc (DictObj m) s))"

definition Config_getattr :: "pystate \<Rightarrow> nat \<Rightarrow> string \<Rightarrow> error + basic" where
  "Config_getattr s c name =
     (case self_config s c of
        Inl e \<Rightarrow> Inl e
      | Inr (d, m) \<Rightarrow> (case m name of None \<Rightarrow> Inl (KeyError name) | Some v \<Rightarrow> Inr v))"

definition get_config :: "pystate \<Rightarrow> nat \<times> pystate" where
  "get_config s =
     (case module_config s of
        None \<Rightarrow> (case Config_init s of (c, s') \<Rightarrow> (c, s'\<lparr>module_config := Some c\<rparr>))
      | Some c \<Rightarrow> (c, s))"

text \<open>A caller that holds the address of a dict mutates it: item assignment, deletion,
  \<open>update\<close>, \<open>clear\<close> all replace the contents of that object by a function of them.\<close>

definition dict_mutate :: "pystate \<Rightarrow> nat \<Rightarrow> (config_dict \<Rightarrow> config_dict) \<Rightarrow> pystate" where
  "dict_mutate s r f =
     (if r < length (heap s) then
        (case heap s ! r of
           DictObj m \<Rightarrow> s\<lparr>heap := (heap s)[r := DictObj (f m)]\<rparr>
         | ConfigObj _ \<Rightarrow> s)
      else s)"

text \<open>The states a program reaches from a state by calls of \<open>get_config\<close>, of the
  methods of a \<open>Config\<close> and by mutations of dicts it holds.\<close>

inductive later :: "pystate \<Rightarrow> pystate \<Rightarrow> bool" where
  later_refl: "later s s"
| later_get_config: "later s t \<Longrightarrow> later s (snd (get_config t))"
| later_clear: "later s t \<Longrightarrow> Config_clear t c = Inr t' \<Longrightarrow> later s t'"
| later_update: "later s t \<Longrightarrow> Config_update t c cd = Inr t' \<Longrightarrow> later s t'"
| later_as_dict: "later s t \<Longrightarrow> Config_as_dict t c = Inr (r, t') \<Longrightarrow> later s t'"
| later_mutate: "later s t \<Longrightarrow> later s (dict_mutate t r f)"

section \<open>\<open>main_a2c\<close>\<close>

text \<open>
  The functions of \<open>main_a2c\<close> read the config singleton and never write it: they are
  given the contents of its dict.  \<open>config.name\<close> is \<open>Config.__getattr__\<close>.
\<close>

definition getattr :: "config_dict \<Rightarrow> string \<Rightarrow> error + basic" where
  "getattr cfg name = (case cfg name of None \<Rightarrow> Inl (KeyError name) | Some v \<Rightarrow> Inr v)"

text \<open>Python arithmetic on config values: \<open>bool\<close> counts as \<open>int\<close>, an operation with a
  float is a float operation, \<open>str\<close> and \<open>None\<close> are no numbers.\<close>

datatype number = IntNum int | FloatNum real

fun number_of :: "basic \<Rightarrow> number option" where
  "number_of (PyInt i) = Some (IntNum i)"
| "number_of (PyBool b) = Some (IntNum (if b then 1 else 0))"
| "number_of (PyFloat x) = Some (FloatNum x)"
| "number_of (PyStr s) = None"
| "number_of PyNone = None"

fun real_of_number :: "number \<Rightarrow> real" where
  "real_of_number (IntNum i) = real_of_int i"
| "real_of_number (FloatNum x) = x"

text \<open>\<open>a // b\<close> and \<open>a % b\<close>: both round to the floor, as \<open>div\<close> and \<open>mod\<close> on \<open>int\<close> do.\<close>

definition py_floordiv :: "basic \<Rightarrow> basic \<Rightarrow> error + basic" where
  "py_floordiv a b =
     (case (number_of a, number_of b) of
        (Some (IntNum i), Some (IntNum j)) \<Rightarrow>
          if j = 0 then Inl ZeroDivisionError else Inr (PyInt (i div j))
      | (Some x, Some y) \<Rightarrow>
          if real_of_number y = 0 then Inl ZeroDivisionError
          else Inr (PyFloat (of_int \<lfloor>real_of_number x / real_of_number y\<rfloor>))
      | _ \<Rightarrow> Inl TypeError)"

definition py_mod :: "basic \<Rightarrow> basic \<Rightarrow> error + basic" where
  "py_mod a b =
     (case (number_of a, number_of b) of
        (Some (IntNum i), Some (IntNum j)) \<Rightarrow>
          if j = 0 then Inl ZeroDivisionError else Inr (PyInt (i mod j))
      | (Some x, Some y) \<Rightarrow>
          if real_of_number y = 0 then Inl ZeroDivisionError
          else Inr (PyFloat (real_of_number x
                 - of_int \<lfloor>real_of_number x / real_of_number y\<rfloor> * real_of_number y))
      | _ \<Rightarrow> Inl TypeError)"

text \<open>\<open>v == 0\<close> and the truth value of \<open>v\<close> in an \<open>if\<close>.\<close>

definition py_eq_zero :: "basic \<Rightarrow> bool" where
  "py_eq_zero v = (case number_of v of None \<Rightarrow> False | Some n \<Rightarrow> real_of_number n = 0)"

fun truthy :: "basic \<Rightarrow> bool" where
  "truthy (PyStr s) = (s \<noteq> [])"
| "truthy (PyFloat x) = (x \<noteq> 0)"
| "truthy (PyInt i) = (i \<noteq> 0)"
| "truthy (PyBool b) = b"
| "truthy PyNone = False"

text \<open>The data classes and named tuples of \<open>main_a2c\<close>.  Objects that these functions
  only pass on (environment, data logger, timer, running averages, target updater,
  episode factories, device, Q estimator, gradient norms) have the type \<open>'obj\<close>.\<close>

record Controlflow =
  log_data :: bool
  update_target_parameters :: bool
  evaluate :: basic
  save_modelseq :: basic

record XStats =
  epoch :: int
  simulation_episodes :: int
  simulation_timesteps :: int
  training_episodes :: int
  training_timesteps :: int
  optimizer_steps :: int

record 'obj RunstateAverages =
  target :: 'obj
  behavior :: 'obj
  behavior100 :: 'obj

record ('d, 'td) RunstateDispensers =
  target_update :: 'd
  datalog :: 'd
  checkpoint :: 'td

record 'obj RunstateEpisodesFactories =
  behavior_factory :: 'obj
  evaluation_factory :: 'obj

record ('obj, 'algo, 'd, 'td) Runstate =
  env :: 'obj
  algo :: 'algo
  datalogger :: 'obj
  timer :: 'obj
  xstats :: XStats
  averages :: "'obj RunstateAverages"
  dispensers :: "('d, 'td) RunstateDispensers"
  target_updater :: 'obj
  episodes_factories :: "'obj RunstateEpisodesFactories"
  device :: 'obj
  negentropy_schedule :: "int \<Rightarrow> real"
  q_estimator :: 'obj

record CheckpointMetadata =
  config :: config_dict
  wandb_run_id :: basic

record ('obj, 'sd, 'd, 'td) CheckpointData =
  algo_state_dict :: 'sd
  datalogger :: 'obj
  timer :: 'obj
  xstats :: XStats
  averages :: "'obj RunstateAverages"
  dispensers :: "('d, 'td) RunstateDispensers"

record ('obj, 'sd, 'd, 'td) Checkpoint =
  metadata :: CheckpointMetadata
  data :: "('obj, 'sd, 'd, 'td) CheckpointData"

record 'obj TrainingData =
  negentropy_weight :: real
  losses :: "string \<rightharpoonup> real"
  gradient_norms :: 'obj

text \<open>
  What \<open>main_a2c\<close> imports from the rest of \<open>asym_rlpo\<close> is a parameter:
  \<^item> \<open>make_env_algo_device\<close>: lines 329 to 368 of \<open>make_runstate\<close>, which build the
    environment, the algorithm and the device from the config (\<open>make_env\<close>,
    \<open>make_model_factory\<close>, \<open>make_a2c_algorithm\<close>, \<open>get_device\<close>);
  \<^item> the constructors \<open>WandbLogger()\<close>, \<open>Timer()\<close>, \<open>XStats()\<close>,
    \<open>InfiniteRunningAverage()\<close>, \<open>WindowRunningAverage(n)\<close>, \<open>Dispenser(n, period)\<close>,
    \<open>TimeDispenser(period)\<close>, and the methods \<open>Dispenser.dispense(n)\<close> and
    \<open>TimeDispenser.dispense()\<close>, which return a truth value and change the dispenser;
  \<^item> \<open>make_loop_parts\<close>: lines 398 to 432 of \<open>make_runstate\<close>, which build the episode
    factories, the negentropy schedule, the Q estimator and the target updater;
  \<^item> the methods \<open>load_state_dict\<close>, \<open>state_dict\<close>, \<open>compute_losses\<close> and
    \<open>trainer.gradient_step\<close> of the algorithm, \<open>episode.torch().to(device)\<close>, and
    \<open>update_xstats_training\<close>, \<open>update_xstats_optimizer\<close>.
\<close>

record ('obj, 'algo, 'sd, 'd, 'td, 'ep) externals =
  make_env_algo_device :: "config_dict \<Rightarrow> error + ('obj \<times> 'algo \<times> 'obj)"
  WandbLogger :: 'obj
  Timer :: 'obj
  XStats_init :: XStats
  InfiniteRunningAverage :: 'obj
  WindowRunningAverage :: "int \<Rightarrow> 'obj"
  Dispenser :: "int \<Rightarrow> basic \<Rightarrow> 'd"
  dispense :: "'d \<Rightarrow> int \<Rightarrow> bool \<times> 'd"
  TimeDispenser :: "basic \<Rightarrow> 'td"
  time_dispense :: "'td \<Rightarrow> bool \<times> 'td"
  make_loop_parts ::
    "config_dict \<Rightarrow> 'obj \<Rightarrow> 'algo
       \<Rightarrow> error + ('obj RunstateEpisodesFactories \<times> (int \<Rightarrow> real) \<times> 'obj \<times> 'obj)"
  load_state_dict :: "'algo \<Rightarrow> 'sd \<Rightarrow> error + 'algo"
  state_dict :: "'algo \<Rightarrow> 'sd"
  to_device :: "'ep \<Rightarrow> 'obj \<Rightarrow> 'ep"
  compute_losses :: "'algo \<Rightarrow> 'ep \<Rightarrow> basic \<Rightarrow> 'obj \<Rightarrow> error + (string \<rightharpoonup> real)"
  gradient_step :: "'algo \<Rightarrow> (string \<times> real) list \<Rightarrow> error + ('obj \<times> 'algo)"
  update_xstats_training :: "XStats \<Rightarrow> 'ep list \<Rightarrow> XStats"
  update_xstats_optimizer :: "XStats \<Rightarrow> XStats"

subsection \<open>\<open>make_runstate\<close> and \<open>make_checkpoint\<close>\<close>

definition make_target_update_dispenser ::
  "('obj, 'algo, 'sd, 'd, 'td, 'ep) externals \<Rightarrow> config_dict \<Rightarrow> error + 'd" where
  "make_target_update_dispenser ext cfg =
     (case getattr cfg ''target_update_function'' of
        Inl e \<Rightarrow> Inl e
      | Inr f \<Rightarrow>
          if f = PyStr ''full'' then
            (case getattr cfg ''target_update_full_period'' of
               Inl e \<Rightarrow> Inl e
             | Inr period \<Rightarrow> Inr (Dispenser ext 0 period))
          else if f = PyStr ''polyak'' then Inr (Dispenser ext 0 (PyInt 0))
          else Inl AssertionError)"

text \<open>Lines 390 to 396: the dispensers; the first checkpoint dispense is consumed.\<close>

definition make_dispensers ::
  "('obj, 'algo, 'sd, 'd, 'td, 'ep) externals \<Rightarrow> config_dict
     \<Rightarrow> error + ('d, 'td) RunstateDispensers" where
  "make_dispensers ext cfg =
     (case getattr cfg ''max_simulation_timesteps'' of
        Inl e \<Rightarrow> Inl e
      | Inr max_steps \<Rightarrow>
     (case getattr cfg ''num_data_logs'' of
        Inl e \<Rightarrow> Inl e
      | Inr num_logs \<Rightarrow>
     (case py_floordiv max_steps num_logs of
        Inl e \<Rightarrow> Inl e
      | Inr datalog_period \<Rightarrow>
     (case make_target_update_dispenser ext cfg of
        Inl e \<Rightarrow> Inl e
      | Inr tu \<Rightarrow>
     (case getattr cfg ''checkpoint_period'' of
        Inl e \<Rightarrow> Inl e
      | Inr checkpoint_period \<Rightarrow>
          Inr \<lparr>target_update = tu,
               datalog = Dispenser ext 0 datalog_period,
               checkpoint = snd (time_dispense ext (TimeDispenser ext checkpoint_period))\<rparr>)))))"

definition make_runstate ::
  "('obj, 'algo, 'sd, 'd, 'td, 'ep) externals \<Rightarrow> config_dict
     \<Rightarrow> ('obj, 'sd, 'd, 'td) Checkpoint option \<Rightarrow> error + ('obj, 'algo, 'd, 'td) Runstate" where
  "make_runstate ext cfg cp =
     (case make_env_algo_device ext cfg of
        Inl e \<Rightarrow> Inl e
      | Inr (env0, algo0, device0) \<Rightarrow>
     (case make_dispensers ext cfg of
        Inl e \<Rightarrow> Inl e
      | Inr dispensers0 \<Rightarrow>
     (case make_loop_parts ext cfg env0 algo0 of
        Inl e \<Rightarrow> Inl e
      | Inr (factories0, schedule0, q_estimator0, target_updater0) \<Rightarrow>
          (let fresh =
             \<lparr>env = env0, algo = algo0,
              Runstate.datalogger = WandbLogger ext,
              Runstate.timer = Timer ext,
              Runstate.xstats = XStats_init ext,
              Runstate.averages =
                \<lparr>target = InfiniteRunningAverage ext,
                 behavior = InfiniteRunningAverage ext,
                 behavior100 = WindowRunningAverage ext 100\<rparr>,
              Runstate.dispensers = dispensers0,
              target_updater = target_updater0,
              episodes_factories = factories0,
              device = device0,
              negentropy_schedule = schedule0,
              q_estimator = q_estimator0\<rparr>
           in case cp of
                None \<Rightarrow> Inr fresh
              | Some c \<Rightarrow>
                  (case load_state_dict ext algo0 (algo_state_dict (data c)) of
                     Inl e \<Rightarrow> Inl e
                   | Inr algo1 \<Rightarrow>
                       Inr (fresh
                         \<lparr>algo := algo1,
                          Runstate.datalogger := CheckpointData.datalogger (data c),
                          Runstate.timer := CheckpointData.timer (data c),
                          Runstate.xstats := CheckpointData.xstats (data c),
                          Runstate.averages := CheckpointData.averages (data c),
                          Runstate.dispensers := CheckpointData.dispensers (data c)\<rparr>))))))"

definition make_checkpoint ::
  "('obj, 'algo, 'sd, 'd, 'td, 'ep) externals \<Rightarrow> config_dict
     \<Rightarrow> ('obj, 'algo, 'd, 'td) Runstate \<Rightarrow> error + ('obj, 'sd, 'd, 'td) Checkpoint" where
  "make_checkpoint ext cfg runstate =
     (case getattr cfg ''wandb_run_id'' of
        Inl e \<Rightarrow> Inl e
      | Inr run_id \<Rightarrow>
          Inr \<lparr>metadata = \<lparr>config = cfg, wandb_run_id = run_id\<rparr>,
               data =
                 \<lparr>algo_state_dict = state_dict ext (algo runstate),
                  CheckpointData.datalogger = Runstate.datalogger runstate,
                  CheckpointData.timer = Runstate.timer runstate,
                  CheckpointData.xstats = Runstate.xstats runstate,
                  CheckpointData.averages = Runstate.averages runstate,
                  CheckpointData.dispensers = Runstate.dispensers runstate\<rparr>\<rparr>)"

subsection \<open>\<open>update_controlflow\<close> and \<open>run_epoch\<close>\<close>

text \<open>\<open>x and config.name\<close> reads the config only when \<open>x\<close> is true.\<close>

definition update_controlflow ::
  "('obj, 'algo, 'sd, 'd, 'td, 'ep) externals \<Rightarrow> config_dict \<Rightarrow> ('obj, 'algo, 'd, 'td) Runstate
     \<Rightarrow> Controlflow \<Rightarrow> error + (Controlflow \<times> ('obj, 'algo, 'd, 'td) Runstate)" where
  "update_controlflow ext cfg runstate controlflow =
     (case dispense ext (datalog (Runstate.dispensers runstate))
             (simulation_timesteps (Runstate.xstats runstate)) of
        (log_data', datalog') \<Rightarrow>
     (case dispense ext (target_update (Runstate.dispensers runstate))
             (simulation_timesteps (Runstate.xstats runstate)) of
        (update_target, target_update') \<Rightarrow>
     (case getattr cfg ''evaluation_period'' of
        Inl e \<Rightarrow> Inl e
      | Inr period \<Rightarrow>
     (case py_mod (PyInt (epoch (Runstate.xstats runstate))) period of
        Inl e \<Rightarrow> Inl e
      | Inr remainder \<Rightarrow>
     (case (if py_eq_zero remainder then getattr cfg ''evaluation'' else Inr (PyBool False)) of
        Inl e \<Rightarrow> Inl e
      | Inr evaluate' \<Rightarrow>
     (case (if log_data' then getattr cfg ''save_modelseq'' else Inr (PyBool False)) of
        Inl e \<Rightarrow> Inl e
      | Inr save_modelseq' \<Rightarrow>
          Inr (controlflow
                 \<lparr>log_data := log_data',
                  update_target_parameters := update_target,
                  evaluate := evaluate',
                  save_modelseq := save_modelseq'\<rparr>,
               runstate
                 \<lparr>Runstate.dispensers := (Runstate.dispensers runstate)
                    \<lparr>datalog := datalog', target_update := target_update'\<rparr>\<rparr>)))))))"

text \<open>The calls \<open>run_epoch\<close> makes after \<open>update_controlflow\<close>, in order, when none of them
  raises.\<close>

datatype epoch_call =
    Call_log_xstats
  | Call_run_evaluation
  | Call_run_simulation
  | Call_target_updater
  | Call_run_training
  | Call_save_modelseq
  | Call_update_xstats_epoch
  | Call_datalogger_commit

definition run_epoch_calls :: "Controlflow \<Rightarrow> epoch_call list" where
  "run_epoch_calls controlflow =
     (if log_data controlflow then [Call_log_xstats] else [])
     @ (if truthy (evaluate controlflow) then [Call_run_evaluation] else [])
     @ [Call_run_simulation]
     @ (if update_target_parameters controlflow then [Call_target_updater] else [])
     @ [Call_run_training]
     @ (if truthy (save_modelseq controlflow) then [Call_save_modelseq] else [])
     @ [Call_update_xstats_epoch]
     @ (if log_data controlflow then [Call_datalogger_commit] else [])"

subsection \<open>\<open>run_training\<close>\<close>

text \<open>
  Modelled from the spec: \<open>average_losses\<close> of \<open>asym_rlpo/utils/aggregate.py\<close>, which is
  not among the sources.  The per-key losses are the average over the sampled episodes
  of the losses computed per episode: a key that every episode has is mapped to the sum
  of its values divided by the number of episodes.  No episode has no average.
\<close>

definition average_losses :: "(string \<rightharpoonup> real) list \<Rightarrow> error + (string \<rightharpoonup> real)" where
  "average_losses ls =
     (if ls = [] then Inl ZeroDivisionError
      else Inr (\<lambda>key. if list_all (\<lambda>l. l key \<noteq> None) ls
                       then Some (sum_list (map (\<lambda>l. the (l key)) ls) / real (length ls))
                       else None))"

text \<open>\<open>losses[key]\<close>.\<close>

definition getitem :: "(string \<rightharpoonup> real) \<Rightarrow> string \<Rightarrow> error + real" where
  "getitem d key = (case d key of None \<Rightarrow> Inl (KeyError key) | Some v \<Rightarrow> Inr v)"

text \<open>The list comprehension of \<open>run_training\<close>: the losses of each episode.\<close>

fun episodes_losses ::
  "('obj, 'algo, 'sd, 'd, 'td, 'ep) externals \<Rightarrow> config_dict \<Rightarrow> ('obj, 'algo, 'd, 'td) Runstate
     \<Rightarrow> 'ep list \<Rightarrow> error + (string \<rightharpoonup> real) list" where
  "episodes_losses ext cfg runstate [] = Inr []"
| "episodes_losses ext cfg runstate (episode # episodes) =
     (case getattr cfg ''training_discount'' of
        Inl e \<Rightarrow> Inl e
      | Inr discount \<Rightarrow>
          (case compute_losses ext (algo runstate) episode discount (q_estimator runstate) of
             Inl e \<Rightarrow> Inl e
           | Inr l \<Rightarrow>
               (case episodes_losses ext cfg runstate episodes of
                  Inl e \<Rightarrow> Inl e
                | Inr ls \<Rightarrow> Inr (l # ls))))"

text \<open>\<open>run_training\<close> returns nothing; the model returns the objectives it hands to
  the gradient step, the training data it would log, and the run state after the call.
  The log calls are left out.\<close>

definition run_training ::
  "('obj, 'algo, 'sd, 'd, 'td, 'ep) externals \<Rightarrow> config_dict \<Rightarrow> ('obj, 'algo, 'd, 'td) Runstate
     \<Rightarrow> Controlflow \<Rightarrow> 'ep list
     \<Rightarrow> error + ((string \<times> real) list \<times> 'obj TrainingData \<times> ('obj, 'algo, 'd, 'td) Runstate)" where
  "run_training ext cfg runstate controlflow episodes0 =
     (let episodes = map (\<lambda>episode. to_device ext episode (device runstate)) episodes0 in
      case episodes_losses ext cfg runstate episodes of
        Inl e \<Rightarrow> Inl e
      | Inr per_episode \<Rightarrow>
     (case average_losses per_episode of
        Inl e \<Rightarrow> Inl e
      | Inr losses' \<Rightarrow>
          (let negentropy_weight' =
                 negentropy_schedule runstate (simulation_timesteps (Runstate.xstats runstate)) in
     (case getitem losses' ''policy'' of
        Inl e \<Rightarrow> Inl e
      | Inr policy_loss \<Rightarrow>
     (case getitem losses' ''negentropy'' of
        Inl e \<Rightarrow> Inl e
      | Inr negentropy_loss \<Rightarrow>
     (case getitem losses' ''critic'' of
        Inl e \<Rightarrow> Inl e
      | Inr critic_loss \<Rightarrow>
          (let objectives =
                 [(''actor'', policy_loss + negentropy_weight' * negentropy_loss),
                  (''critic'', critic_loss)] in
     (case gradient_step ext (algo runstate) objectives of
        Inl e \<Rightarrow> Inl e
      | Inr (gradient_norms', algo') \<Rightarrow>
          Inr (objectives,
               \<lparr>negentropy_weight = negentropy_weight', losses = losses',
                gradient_norms = gradient_norms'\<rparr>,
               runstate
                 \<lparr>algo := algo',
                  Runstate.xstats :=
                    update_xstats_optimizer ext
                      (update_xstats_training ext (Runstate.xstats runstate) episodes)\<rparr>)))))))))"

section \<open>Specified behaviour\<close>

text \<open>The TD target of timestep \<open>t\<close>: the reward plus the discounted bootstrap, which is
  zero at a done timestep and else the target network's state-conditioned value of the
  next timestep at the greedy action of its history-conditioned values.\<close>

definition td_target ::
  "('o, 's) episode \<Rightarrow> real \<Rightarrow> real list list \<Rightarrow> real list list \<Rightarrow> nat \<Rightarrow> real" where
  "td_target ep discount target_qh target_qhs t =
     rewards ep ! t
     + discount * (if dones ep ! t then 0
                   else target_qhs ! Suc t ! argmax_list (target_qh ! Suc t))"

definition mean_squared_error :: "nat \<Rightarrow> (nat \<Rightarrow> real) \<Rightarrow> (nat \<Rightarrow> real) \<Rightarrow> real" where
  "mean_squared_error T f g = (\<Sum>t<T. (f t - g t)\<^sup>2) / real T"

text \<open>An episode of \<open>T\<close> timesteps with Q values of matching shape: \<open>T\<close> rows each, the
  actions within the rows of the online values, and target rows of one width.\<close>

definition well_shaped ::
  "('o, 's) episode \<Rightarrow> nat \<Rightarrow> real list list \<Rightarrow> real list list \<Rightarrow> real list list \<Rightarrow> bool" where
  "well_shaped ep T online target_qh target_qhs =
     (0 < T \<and> length (actions ep) = T \<and> length (rewards ep) = T \<and> length (dones ep) = T
      \<and> length online = T \<and> length target_qh = T \<and> length target_qhs = T
      \<and> list_all (\<lambda>t. 0 \<le> actions ep ! t \<and> nat (actions ep ! t) < length (online ! t)
                     \<and> target_qh ! t \<noteq> [] \<and> length (target_qhs ! t) = length (target_qh ! t))
           [0..<T])"

text \<open>The run of the environment that an episode records: it starts at the first
  observation and state, and action \<open>t\<close> leads to observation and state \<open>t + 1\<close>.\<close>

definition episode_start :: "('o, 's) episode \<Rightarrow> 'o \<times> 's" where
  "episode_start ep = (hd (observations ep), hd (states ep))"

definition episode_steps :: "('o, 's) episode \<Rightarrow> (int \<times> 'o \<times> 's) list" where
  "episode_steps ep = zip (butlast (actions ep)) (zip (tl (observations ep)) (tl (states ep)))"

text \<open>The average of a key over the loss dictionaries of the episodes.\<close>

definition mean_loss :: "(string \<rightharpoonup> real) list \<Rightarrow> string \<Rightarrow> real" where
  "mean_loss ls key = (\<Sum>l\<leftarrow>ls. the (l key)) / real (length ls)"

section \<open>Example inputs\<close>

text \<open>An episode of two timesteps and small models: one-hot actions, identity
  observations and states, a recurrent cell that adds up its inputs, and Q models with two
  actions.\<close>

definition ex_episode :: "(real, real) episode" where
  "ex_episode = \<lparr>actions = [1, 0], observations = [1, 2], states = [3, 4],
                 rewards = [1, 2], dones = [False, True]\<rparr>"

definition ex_cell :: "real \<Rightarrow> real list \<Rightarrow> real list \<times> real" where
  "ex_cell h x = ([h + sum_list x], h + sum_list x)"

definition ex_models :: "(real, real, real) models" where
  "ex_models =
     \<lparr>action_model = (\<lambda>a. [if a = 0 then 1 else 0, if a = 1 then 1 else 0]),
      action_model_dim = 2,
      observation_model = (\<lambda>ob. [ob]),
      state_model = (\<lambda>st. [st]),
      history_model = rnn ex_cell 0,
      qh_model = (\<lambda>f. [sum_list f, 2]),
      qhs_model = (\<lambda>f. [sum_list f, 1])\<rparr>"

text \<open>Target models with other Q heads, an episode of one timestep, and the Q values of
  the online and of the target models on the two example episodes.\<close>

definition ex_target_models :: "(real, real, real) models" where
  "ex_target_models =
     \<lparr>action_model = (\<lambda>a. [if a = 0 then 1 else 0, if a = 1 then 1 else 0]),
      action_model_dim = 2,
      observation_model = (\<lambda>ob. [ob]),
      state_model = (\<lambda>st. [st]),
      history_model = rnn ex_cell 0,
      qh_model = (\<lambda>f. [2, sum_list f]),
      qhs_model = (\<lambda>f. [sum_list f, 3])\<rparr>"

definition ex_short_episode :: "(real, real) episode" where
  "ex_short_episode = \<lparr>actions = [0], observations = [5], states = [6],
                       rewards = [3], dones = [True]\<rparr>"

definition ex_online_values :: "(real, real) episode \<Rightarrow> real list list \<times> real list list" where
  "ex_online_values ep =
     (if length (actions ep) = 2 then ([[1, 2], [4, 2]], [[4, 1], [8, 1]])
      else ([[5, 2]], [[11, 1]]))"

definition ex_target_values :: "(real, real) episode \<Rightarrow> real list list \<times> real list list" where
  "ex_target_values ep =
     (if length (actions ep) = 2 then ([[2, 1], [2, 4]], [[4, 3], [8, 3]])
      else ([[2, 5]], [[11, 3]]))"

text \<open>Program states: the start, the state after \<open>get_config()._update({'seed': 7})\<close>, and
  the state after \<open>_as_dict()\<close>.\<close>

definition ex_state :: pystate where
  "ex_state = \<lparr>heap = [], module_config = None\<rparr>"

definition ex_state_updated :: pystate where
  "ex_state_updated =
     \<lparr>heap = [DictObj [''seed'' \<mapsto> PyInt 7], ConfigObj 0], module_config = Some 1\<rparr>"

definition ex_state_copied :: pystate where
  "ex_state_copied =
     \<lparr>heap = [DictObj [''seed'' \<mapsto> PyInt 7], ConfigObj 0, DictObj [''seed'' \<mapsto> PyInt 7]],
      module_config = Some 1\<rparr>"

text \<open>A config, externals over small types (a dispenser is its next threshold and its
  period, the state dict of an algorithm is a number), a run state at epoch 20 and at
  simulation timestep 30000, its checkpoint, a control flow and per-episode losses.\<close>

definition ex_config :: config_dict where
  "ex_config =
     [''wandb_run_id'' \<mapsto> PyStr ''run'',
      ''target_update_function'' \<mapsto> PyStr ''full'',
      ''target_update_full_period'' \<mapsto> PyInt 10000,
      ''max_simulation_timesteps'' \<mapsto> PyInt 2000000,
      ''num_data_logs'' \<mapsto> PyInt 200,
      ''checkpoint_period'' \<mapsto> PyInt 600,
      ''evaluation'' \<mapsto> PyBool True,
      ''evaluation_period'' \<mapsto> PyInt 10,
      ''save_modelseq'' \<mapsto> PyBool False,
      ''training_discount'' \<mapsto> PyFloat (99 / 100)]"

definition ex_dispense :: "int \<times> basic \<Rightarrow> int \<Rightarrow> bool \<times> (int \<times> basic)" where
  "ex_dispense d n =
     (fst d \<le> n, (case snd d of PyInt k \<Rightarrow> if fst d \<le> n then (n + k, snd d) else d | _ \<Rightarrow> d))"

definition ex_externals :: "(nat, nat, nat, int \<times> basic, basic, nat) externals" where
  "ex_externals =
     \<lparr>make_env_algo_device = (\<lambda>cfg. Inr (0, 0, 0)),
      WandbLogger = 0,
      Timer = 0,
      XStats_init = \<lparr>epoch = 0, simulation_episodes = 0, simulation_timesteps = 0,
                     training_episodes = 0, training_timesteps = 0, optimizer_steps = 0\<rparr>,
      InfiniteRunningAverage = 0,
      WindowRunningAverage = (\<lambda>n. nat n),
      Dispenser = (\<lambda>n period. (n, period)),
      dispense = ex_dispense,
      TimeDispenser = (\<lambda>period. period),
      time_dispense = (\<lambda>t. (True, t)),
      make_loop_parts =
        (\<lambda>cfg env0 algo0. Inr (\<lparr>behavior_factory = 0, evaluation_factory = 0\<rparr>, (\<lambda>n. 1 / 2), 0, 0)),
      load_state_dict = (\<lambda>a sd. Inr sd),
      state_dict = (\<lambda>a. a),
      to_device = (\<lambda>episode dev. episode),
      compute_losses =
        (\<lambda>a episode discount q.
           Inr [''policy'' \<mapsto> real episode, ''negentropy'' \<mapsto> 2, ''critic'' \<mapsto> 4]),
      gradient_step = (\<lambda>a objectives. Inr (0, Suc a)),
      update_xstats_training =
        (\<lambda>xs episodes. xs\<lparr>training_episodes := training_episodes xs + int (length episodes)\<rparr>),
      update_xstats_optimizer = (\<lambda>xs. xs\<lparr>optimizer_steps := optimizer_steps xs + 1\<rparr>)\<rparr>"

definition ex_runstate :: "(nat, nat, int \<times> basic, basic) Runstate" where
  "ex_runstate =
     \<lparr>env = 0, algo = 5,
      Runstate.datalogger = 1,
      Runstate.timer = 2,
      Runstate.xstats = \<lparr>epoch = 20, simulation_episodes = 20, simulation_timesteps = 30000,
                          training_episodes = 20, training_timesteps = 30000, optimizer_steps = 20\<rparr>,
      Runstate.averages = \<lparr>target = 3, behavior = 4, behavior100 = 5\<rparr>,
      Runstate.dispensers =
        \<lparr>target_update = (30000, PyInt 10000), datalog = (40000, PyInt 10000),
         checkpoint = PyInt 600\<rparr>,
      target_updater = 0,
      episodes_factories = \<lparr>behavior_factory = 0, evaluation_factory = 0\<rparr>,
      device = 0,
      negentropy_schedule = (\<lambda>n. 1 / 2),
      q_estimator = 0\<rparr>"

definition ex_checkpoint :: "(nat, nat, int \<times> basic, basic) Checkpoint" where
  "ex_checkpoint =
     \<lparr>metadata = \<lparr>config = ex_config, wandb_run_id = PyStr ''run''\<rparr>,
      data =
        \<lparr>algo_state_dict = 5,
         CheckpointData.datalogger = 1,
         CheckpointData.timer = 2,
         CheckpointData.xstats = Runstate.xstats ex_runstate,
         CheckpointData.averages = \<lparr>target = 3, behavior = 4, behavior100 = 5\<rparr>,
         CheckpointData.dispensers = Runstate.dispensers ex_runstate\<rparr>\<rparr>"

definition ex_controlflow :: Controlflow where
  "ex_controlflow = \<lparr>log_data = False, update_target_parameters = False,
                      evaluate = PyBool False, save_modelseq = PyBool False\<rparr>"

definition ex_loss :: "nat \<Rightarrow> (string \<rightharpoonup> real)" where
  "ex_loss episode = [''policy'' \<mapsto> real episode, ''negentropy'' \<mapsto> 2, ''critic'' \<mapsto> 4]"

section \<open>Tensor lemmas\<close>

lemma argmax_list_less: "xs \<noteq> [] \<Longrightarrow> argmax_list xs < length xs"
  by (induction xs rule: argmax_list.induct) (auto simp: Let_def)

lemma argmax_list_max: "a < length xs \<Longrightarrow> xs ! a \<le> xs ! argmax_list xs"
proof (induction xs arbitrary: a rule: argmax_list.induct)
  case 1
  then show ?case by simp
next
  case (2 x)
  then show ?case by simp
next
  case (3 x y ys)
  show ?case
  proof (cases a)
    case 0
    then show ?thesis by (simp add: Let_def)
  next
    case (Suc b)
    with 3 have "(y # ys) ! b \<le> (y # ys) ! argmax_list (y # ys)" by simp
    with Suc show ?thesis by (auto simp: Let_def)
  qed
qed

lemma roll_back_nth:
  assumes "t < length xs"
  shows "roll (- 1) xs ! t = xs ! (Suc t mod length xs)"
proof -
  have "nat (1 mod int (length xs)) = 1 mod length xs"
    by (metis nat_int of_nat_1 zmod_int)
  then show ?thesis using assms by (simp add: roll_def nth_rotate)
qed

lemma length_roll: "length (roll s xs) = length xs"
  by (simp add: roll_def)

lemma broadcast2_same: "length xs = length ys \<Longrightarrow> broadcast2 f xs ys = Inr (map2 f xs ys)"
  by (simp add: broadcast2_def)

lemma gather_ok:
  assumes "length idx \<le> length m"
    and "\<And>t. t < length idx \<Longrightarrow> 0 \<le> idx ! t \<and> nat (idx ! t) < length (m ! t)"
  shows "gather m idx = Inr (map (\<lambda>t. m ! t ! nat (idx ! t)) [0..<length idx])"
proof -
  have a: "list_all (\<lambda>(row, i). 0 \<le> i \<and> nat i < length row) (zip m idx)"
    using assms by (auto simp: list_all_length)
  have b: "map (\<lambda>(row, i). row ! nat i) (zip m idx) = map (\<lambda>t. m ! t ! nat (idx ! t)) [0..<length idx]"
    using assms(1) by (auto intro!: nth_equalityI)
  show ?thesis using a b assms(1) by (simp add: gather_def)
qed

lemma mse_loss_same:
  assumes "length xs = T" "length ys = T" "0 < T"
  shows "mse_loss xs ys = Inr (Val ((\<Sum>t<T. (xs ! t - ys ! t)\<^sup>2) / real T))"
proof -
  have "map2 (\<lambda>x y. (x - y)\<^sup>2) xs ys = map (\<lambda>t. (xs ! t - ys ! t)\<^sup>2) [0..<T]"
    using assms by (auto intro!: nth_equalityI)
  moreover have "sum_list (map (\<lambda>t. (xs ! t - ys ! t)\<^sup>2) [0..<T]) = (\<Sum>t<T. (xs ! t - ys ! t)\<^sup>2)"
    by (simp add: interv_sum_list_conv_sum_set_nat atLeast0LessThan)
  ultimately show ?thesis using assms by (simp add: mse_loss_def broadcast2_same)
qed

lemma argmax_rows_ok:
  assumes "\<And>t. t < length m \<Longrightarrow> m ! t \<noteq> []"
  shows "argmax_rows m = Inr (map (\<lambda>row. int (argmax_list row)) m)"
  using assms by (auto simp: argmax_rows_def list_all_length)

lemma loss_target_ok:
  assumes T: "0 < T" "length (rewards ep) = T" "length (dones ep) = T"
    "length tqh = T" "length tqhs = T"
    and rows: "\<And>t. t < T \<Longrightarrow> tqh ! t \<noteq> [] \<and> length (tqhs ! t) = length (tqh ! t)"
    and fin: "last (dones ep)"
  shows "\<exists>tgt. qhs_loss_target ep d tqh tqhs = Inr tgt \<and> length tgt = T
           \<and> (\<forall>t<T. tgt ! t = td_target ep d tqh tqhs t)"
proof -
  let ?best = "map (\<lambda>row. int (argmax_list row)) tqh"
  let ?picked = "map (\<lambda>t. tqhs ! t ! nat (?best ! t)) [0..<length ?best]"
  let ?boot = "map2 (\<lambda>d v. if d then 0 else v) (dones ep) (roll (- 1) ?picked)"
  let ?tgt = "map2 (\<lambda>r b. r + d * b) (rewards ep) ?boot"
  have a: "argmax_rows tqh = Inr ?best"
    using rows T by (intro argmax_rows_ok) simp
  have b: "gather tqhs ?best = Inr ?picked"
  proof (rule gather_ok)
    show "length ?best \<le> length tqhs" using T by simp
  next
    fix t assume "t < length ?best"
    then have t: "t < T" using T by simp
    with rows have "argmax_list (tqh ! t) < length (tqhs ! t)"
      using argmax_list_less [of "tqh ! t"] by simp
    with t T show "0 \<le> ?best ! t \<and> nat (?best ! t) < length (tqhs ! t)" by simp
  qed
  have lp: "length ?picked = T" using T by simp
  have c: "broadcast2 (\<lambda>d v. if d then 0 else v) (dones ep) (roll (- 1) ?picked) = Inr ?boot"
    using T lp by (intro broadcast2_same) (simp add: length_roll)
  have lb: "length ?boot = T" using T lp by (simp add: length_roll)
  have e: "broadcast2 (\<lambda>r b. r + d * b) (rewards ep) ?boot = Inr ?tgt"
    using T lb by (intro broadcast2_same) simp
  have res: "qhs_loss_target ep d tqh tqhs = Inr ?tgt"
    by (simp only: qhs_loss_target_def a b c e sum.case)
  have len: "length ?tgt = T" using T lb by simp
  have nth: "?tgt ! t = td_target ep d tqh tqhs t" if t: "t < T" for t
  proof -
    have r: "roll (- 1) ?picked ! t = ?picked ! (Suc t mod T)"
      using roll_back_nth [of t ?picked] t lp by simp
    have "?tgt ! t = rewards ep ! t + d * (if dones ep ! t then 0 else ?picked ! (Suc t mod T))"
      using t T lp lb r by (simp add: length_roll)
    moreover have "\<not> dones ep ! t \<Longrightarrow> ?picked ! (Suc t mod T) = tqhs ! Suc t ! argmax_list (tqh ! Suc t)"
    proof -
      assume nd: "\<not> dones ep ! t"
      have "dones ep \<noteq> []" using T by auto
      then have "dones ep ! (T - 1)" using fin T by (simp add: last_conv_nth)
      with nd have "t \<noteq> T - 1" by auto
      with t have st: "Suc t < T" by simp
      then show ?thesis using T by simp
    qed
    ultimately show ?thesis by (simp add: td_target_def)
  qed
  show ?thesis using res len nth by blast
qed


section \<open>The losses of \<open>POE_ADQN\<close>\<close>

text \<open>The value of \<open>qhs_loss\<close> on Q values of matching shape, for an episode whose last
  \<open>dones\<close> entry is true; the argmax of a row is an entry of maximal value.\<close>

lemma qhs_loss_value:
  assumes "well_shaped ep T qhs tqh tqhs" and "last (dones ep)"
  shows "qhs_loss ep d qh qhs tqh tqhs
           = Inr (Val (mean_squared_error T (\<lambda>t. qhs ! t ! nat (actions ep ! t)) (td_target ep d tqh tqhs)))
         \<and> list_all (\<lambda>t. list_all (\<lambda>q. q \<le> tqh ! t ! argmax_list (tqh ! t)) (tqh ! t)) [0..<T]"
proof -
  from assms(1) have T: "0 < T" "length (actions ep) = T" "length (rewards ep) = T"
    "length (dones ep) = T" "length qhs = T" "length tqh = T" "length tqhs = T"
    and rows: "\<And>t. t < T \<Longrightarrow> 0 \<le> actions ep ! t \<and> nat (actions ep ! t) < length (qhs ! t)
                     \<and> tqh ! t \<noteq> [] \<and> length (tqhs ! t) = length (tqh ! t)"
    by (auto simp: well_shaped_def list_all_iff)
  obtain tgt where tgt: "qhs_loss_target ep d tqh tqhs = Inr tgt" "length tgt = T"
    "\<And>t. t < T \<Longrightarrow> tgt ! t = td_target ep d tqh tqhs t"
    using loss_target_ok [of T ep tqh tqhs d] T rows assms(2) by blast
  let ?taken = "map (\<lambda>t. qhs ! t ! nat (actions ep ! t)) [0..<length (actions ep)]"
  have g: "gather qhs (actions ep) = Inr ?taken"
    using T rows by (intro gather_ok) auto
  have "mse_loss ?taken tgt = Inr (Val ((\<Sum>t<T. (?taken ! t - tgt ! t)\<^sup>2) / real T))"
    using T tgt(2) by (intro mse_loss_same) auto
  moreover have "(\<Sum>t<T. (?taken ! t - tgt ! t)\<^sup>2)
       = (\<Sum>t<T. (qhs ! t ! nat (actions ep ! t) - td_target ep d tqh tqhs t)\<^sup>2)"
    using T tgt(3) by (intro sum.cong) auto
  ultimately have "qhs_loss ep d qh qhs tqh tqhs
           = Inr (Val (mean_squared_error T (\<lambda>t. qhs ! t ! nat (actions ep ! t)) (td_target ep d tqh tqhs)))"
    by (simp add: qhs_loss_def g tgt(1) mean_squared_error_def)
  moreover have "list_all (\<lambda>t. list_all (\<lambda>q. q \<le> tqh ! t ! argmax_list (tqh ! t)) (tqh ! t)) [0..<T]"
    by (auto simp: list_all_length argmax_list_max)
  ultimately show ?thesis by simp
qed

lemma qh_loss_as_qhs_loss:
  "qh_loss ep discount qh qhs target_qh target_qhs
     = qhs_loss ep discount other qh target_qh target_qhs"
proof -
  have t: "qh_loss_target ep discount target_qh target_qhs
             = qhs_loss_target ep discount target_qh target_qhs"
    by (simp add: qh_loss_target_def qhs_loss_target_def)
  show ?thesis unfolding qh_loss_def qhs_loss_def t by simp
qed

lemma qh_loss_value:
  assumes "well_shaped ep T qh tqh tqhs" and "last (dones ep)"
  shows "qh_loss ep d qh qhs tqh tqhs
           = Inr (Val (mean_squared_error T (\<lambda>t. qh ! t ! nat (actions ep ! t))
                         (td_target ep d tqh tqhs)))"
  using qhs_loss_value [OF assms, of d qh] qh_loss_as_qhs_loss [of ep d qh qhs tqh tqhs qh]
  by simp

text \<open>
  C4.  The two heads are regressed toward the same target: the target of \<open>qh_loss\<close>
  equals the target of \<open>qhs_loss\<close> (the same list, or the same exception), and \<open>qh_loss\<close>
  is \<open>qhs_loss\<close> with the online history-conditioned values in the place of the online
  state-conditioned ones.
\<close>

theorem same_dual_head_target:
  "qh_loss_target ep discount target_qh target_qhs = qhs_loss_target ep discount target_qh target_qhs
   \<and> qh_loss ep discount qh qhs target_qh target_qhs
       = qhs_loss ep discount other qh target_qh target_qhs"
proof -
  have t: "qh_loss_target ep discount target_qh target_qhs
             = qhs_loss_target ep discount target_qh target_qhs"
    by (simp add: qh_loss_target_def qhs_loss_target_def)
  show ?thesis unfolding qh_loss_def qhs_loss_def t by simp
qed

text \<open>The example episodes under the example online and target models.\<close>

lemma ex_history_features: "compute_history_features ex_models [1, 0] [1, 2] = Inr [[1], [4]]"
  by (simp add: compute_history_features_def ex_models_def roll_def rnn_def ex_cell_def)

lemma ex_q_values:
  "compute_q_values ex_models [1, 0] [1, 2] [3, 4] = Inr ([[1, 2], [4, 2]], [[4, 1], [8, 1]])"
  by (simp add: compute_q_values_def ex_history_features) (simp add: ex_models_def)

lemma ex_target_history_features:
  "compute_history_features ex_target_models [1, 0] [1, 2] = Inr [[1], [4]]"
  by (simp add: compute_history_features_def ex_target_models_def roll_def rnn_def ex_cell_def)

lemma ex_target_q_values:
  "compute_q_values ex_target_models [1, 0] [1, 2] [3, 4]
     = Inr ([[2, 1], [2, 4]], [[4, 3], [8, 3]])"
  by (simp add: compute_q_values_def ex_target_history_features) (simp add: ex_target_models_def)

lemma ex_online_of_episode:
  "compute_q_values ex_models (actions ex_episode) (observations ex_episode) (states ex_episode)
     = Inr ([[1, 2], [4, 2]], [[4, 1], [8, 1]])"
  using ex_q_values by (simp add: ex_episode_def)

lemma ex_target_of_episode:
  "compute_q_values ex_target_models (actions ex_episode) (observations ex_episode)
       (states ex_episode)
     = Inr ([[2, 1], [2, 4]], [[4, 3], [8, 3]])"
  using ex_target_q_values by (simp add: ex_episode_def)

lemma ex_shapes:
  "well_shaped ex_episode 2 [[4, 1], [8, 1]] [[2, 1], [2, 4]] [[4, 3], [8, 3]]"
  "well_shaped ex_episode 2 [[1, 2], [4, 2]] [[2, 1], [2, 4]] [[4, 3], [8, 3]]"
  "last (dones ex_episode)"
  by (simp_all add: well_shaped_def ex_episode_def upt_conv_Cons)

lemma ex_mse:
  "mean_squared_error 2 (\<lambda>t. [[4, 1], [8, 1]] ! t ! nat (actions ex_episode ! t))
     (td_target ex_episode (1 / 2) [[2, 1], [2, 4]] [[4, 3], [8, 3]]) = 153 / 8"
  "mean_squared_error 2 (\<lambda>t. [[1, 2], [4, 2]] ! t ! nat (actions ex_episode ! t))
     (td_target ex_episode (1 / 2) [[2, 1], [2, 4]] [[4, 3], [8, 3]]) = 17 / 8"
  by (simp_all add: mean_squared_error_def td_target_def ex_episode_def lessThan_Suc numeral_2_eq_2)

lemma ex_short_q_values:
  "compute_q_values ex_models [0] [5] [6] = Inr ([[5, 2]], [[11, 1]])"
  "compute_q_values ex_target_models [0] [5] [6] = Inr ([[2, 5]], [[11, 3]])"
  by (simp_all add: compute_q_values_def compute_history_features_def roll_def rnn_def
      ex_cell_def ex_models_def ex_target_models_def)

lemma ex_losses:
  "qhs_loss ex_episode (1 / 2) [[1, 2], [4, 2]] [[4, 1], [8, 1]] [[2, 1], [2, 4]] [[4, 3], [8, 3]]
     = Inr (Val (153 / 8))"
  "qh_loss ex_episode (1 / 2) [[1, 2], [4, 2]] [[4, 1], [8, 1]] [[2, 1], [2, 4]] [[4, 3], [8, 3]]
     = Inr (Val (17 / 8))"
  "qhs_loss ex_short_episode (1 / 2) [[5, 2]] [[11, 1]] [[2, 5]] [[11, 3]] = Inr (Val 64)"
  "qh_loss ex_short_episode (1 / 2) [[5, 2]] [[11, 1]] [[2, 5]] [[11, 3]] = Inr (Val 4)"
  by (simp_all add: qhs_loss_def qhs_loss_target_def qh_loss_def qh_loss_target_def gather_def
      argmax_rows_def broadcast2_def mse_loss_def roll_def ex_episode_def ex_short_episode_def
      power2_eq_square)

text \<open>
  C1.  For an episode passed to \<open>episodic_loss\<close> whose last \<open>dones\<close> entry is true, with
  \<open>qh\<close>, \<open>qhs\<close> the Q values that \<open>compute_q_values\<close> returns for the online models and
  \<open>tqh\<close>, \<open>tqhs\<close> those it returns for the target models, all of matching shape: the
  loss of the state-conditioned head is the mean squared error between the online \<open>qhs\<close>
  values gathered at the episode's actions and the TD target
  \<open>rewards[t] + discount * bootstrap[t]\<close>, where the bootstrap is zero at a done timestep
  and else the target network's \<open>qhs\<close> value of timestep \<open>t + 1\<close> at the argmax of the
  target network's \<open>qh\<close> values of timestep \<open>t + 1\<close>, an action of maximal value.  The
  loss of the history-conditioned head has the same target, and \<open>episodic_loss\<close> of the
  single episode is the half sum of the two.
\<close>

theorem episodic_loss_td_target:
  assumes online: "compute_q_values ms (actions ep) (observations ep) (states ep) = Inr (qh, qhs)"
    and target: "compute_q_values target_ms (actions ep) (observations ep) (states ep) = Inr (tqh, tqhs)"
    and shape: "well_shaped ep T qhs tqh tqhs"
    and shape_h: "well_shaped ep T qh tqh tqhs"
    and fin: "last (dones ep)"
  shows "episode_head_losses ms target_ms d ep
           = Inr (Val (mean_squared_error T (\<lambda>t. qhs ! t ! nat (actions ep ! t))
                         (td_target ep d tqh tqhs)),
                  Val (mean_squared_error T (\<lambda>t. qh ! t ! nat (actions ep ! t))
                         (td_target ep d tqh tqhs)))
         \<and> qhs_loss ep d qh qhs tqh tqhs
             = Inr (Val (mean_squared_error T (\<lambda>t. qhs ! t ! nat (actions ep ! t))
                           (td_target ep d tqh tqhs)))
         \<and> episodic_loss ms target_ms d [ep]
             = Inr (Val ((mean_squared_error T (\<lambda>t. qhs ! t ! nat (actions ep ! t))
                            (td_target ep d tqh tqhs)
                          + mean_squared_error T (\<lambda>t. qh ! t ! nat (actions ep ! t))
                              (td_target ep d tqh tqhs)) / 2))
         \<and> list_all (\<lambda>t. list_all (\<lambda>q. q \<le> tqh ! t ! argmax_list (tqh ! t)) (tqh ! t)) [0..<T]"
proof -
  let ?A = "mean_squared_error T (\<lambda>t. qhs ! t ! nat (actions ep ! t)) (td_target ep d tqh tqhs)"
  let ?B = "mean_squared_error T (\<lambda>t. qh ! t ! nat (actions ep ! t)) (td_target ep d tqh tqhs)"
  have a: "qhs_loss ep d qh qhs tqh tqhs = Inr (Val ?A)"
    and m: "list_all (\<lambda>t. list_all (\<lambda>q. q \<le> tqh ! t ! argmax_list (tqh ! t)) (tqh ! t)) [0..<T]"
    using qhs_loss_value [OF shape fin, of d qh] by simp_all
  have b: "qh_loss ep d qh qhs tqh tqhs = Inr (Val ?B)"
    using qh_loss_value [OF shape_h fin] .
  have h: "episode_head_losses ms target_ms d ep = Inr (Val ?A, Val ?B)"
    by (simp only: episode_head_losses_def online target sum.case prod.case a b)
  have "episode_losses ms target_ms d [ep] = Inr [Val ((?A + ?B) / 2)]"
    by (simp add: episode_loss_def h)
  then have e: "episodic_loss ms target_ms d [ep] = Inr (Val ((?A + ?B) / 2))"
    by (simp add: episodic_loss_def)
  from h a e m show ?thesis by simp
qed

theorem episodic_loss_td_target_witness:
  "compute_q_values ex_models (actions ex_episode) (observations ex_episode) (states ex_episode)
     = Inr ([[1, 2], [4, 2]], [[4, 1], [8, 1]])
   \<and> compute_q_values ex_target_models (actions ex_episode) (observations ex_episode)
         (states ex_episode)
       = Inr ([[2, 1], [2, 4]], [[4, 3], [8, 3]])
   \<and> well_shaped ex_episode 2 [[4, 1], [8, 1]] [[2, 1], [2, 4]] [[4, 3], [8, 3]]
   \<and> well_shaped ex_episode 2 [[1, 2], [4, 2]] [[2, 1], [2, 4]] [[4, 3], [8, 3]]
   \<and> last (dones ex_episode)
   \<and> episode_head_losses ex_models ex_target_models (1 / 2) ex_episode
       = Inr (Val (153 / 8), Val (17 / 8))
   \<and> episodic_loss ex_models ex_target_models (1 / 2) [ex_episode] = Inr (Val (85 / 8))"
  using episodic_loss_td_target [OF ex_online_of_episode ex_target_of_episode ex_shapes, of "1 / 2"]
    ex_online_of_episode ex_target_of_episode ex_shapes ex_mse
  by simp

lemma foldl_sadd_Val: "foldl sadd (Val x) (map Val xs) = Val (x + sum_list xs)"
  by (induction xs arbitrary: x) (simp_all add: add.assoc)

lemma episode_losses_half_sums:
  assumes "\<forall>ep \<in> set episodes. episode_head_losses ms tms d ep = Inr (Val (a ep), Val (b ep))"
  shows "episode_losses ms tms d episodes = Inr (map (\<lambda>ep. Val ((a ep + b ep) / 2)) episodes)"
  using assms by (induction episodes) (simp_all add: episode_loss_def)

lemma episode_head_losses_of:
  assumes "compute_q_values ms (actions ep) (observations ep) (states ep) = Inr (qh, qhs)"
    and "compute_q_values target_ms (actions ep) (observations ep) (states ep) = Inr (tqh, tqhs)"
    and "qhs_loss ep d qh qhs tqh tqhs = Inr a"
    and "qh_loss ep d qh qhs tqh tqhs = Inr b"
  shows "episode_head_losses ms target_ms d ep = Inr (a, b)"
  by (simp only: episode_head_losses_def assms sum.case prod.case)

text \<open>
  C3.  For a non-empty sequence of episodes, let \<open>a ep\<close> be the value of \<open>qhs_loss\<close> and
  \<open>b ep\<close> the value of \<open>qh_loss\<close> on the Q values that \<open>compute_q_values\<close> returns for
  the online and for the target models on episode \<open>ep\<close>.  Then \<open>episodic_loss\<close> returns
  the sum over the episodes of \<open>(a ep + b ep) / 2\<close> divided by the number of episodes.
\<close>

theorem episodic_loss_mean:
  assumes "episodes \<noteq> []"
    and "\<forall>ep \<in> set episodes.
           compute_q_values ms (actions ep) (observations ep) (states ep)
             = Inr (online_of ep)
           \<and> compute_q_values target_ms (actions ep) (observations ep) (states ep)
             = Inr (target_of ep)
           \<and> qhs_loss ep d (fst (online_of ep)) (snd (online_of ep)) (fst (target_of ep)) (snd (target_of ep))
             = Inr (Val (a ep))
           \<and> qh_loss ep d (fst (online_of ep)) (snd (online_of ep)) (fst (target_of ep)) (snd (target_of ep))
             = Inr (Val (b ep))"
  shows "episodic_loss ms target_ms d episodes
           = Inr (Val ((\<Sum>ep\<leftarrow>episodes. (a ep + b ep) / 2) / real (length episodes)))"
proof -
  have "\<forall>ep \<in> set episodes. episode_head_losses ms target_ms d ep = Inr (Val (a ep), Val (b ep))"
  proof
    fix ep assume "ep \<in> set episodes"
    with assms(2) have
      "compute_q_values ms (actions ep) (observations ep) (states ep)
         = Inr (fst (online_of ep), snd (online_of ep))"
      "compute_q_values target_ms (actions ep) (observations ep) (states ep)
         = Inr (fst (target_of ep), snd (target_of ep))"
      "qhs_loss ep d (fst (online_of ep)) (snd (online_of ep)) (fst (target_of ep)) (snd (target_of ep))
         = Inr (Val (a ep))"
      "qh_loss ep d (fst (online_of ep)) (snd (online_of ep)) (fst (target_of ep)) (snd (target_of ep))
         = Inr (Val (b ep))"
      by simp_all
    then show "episode_head_losses ms target_ms d ep = Inr (Val (a ep), Val (b ep))"
      by (rule episode_head_losses_of)
  qed
  then have "episode_losses ms target_ms d episodes
      = Inr (map Val (map (\<lambda>ep. (a ep + b ep) / 2) episodes))"
    using episode_losses_half_sums [of episodes ms target_ms d a b] by simp
  then show ?thesis using assms(1)
    by (simp only: episodic_loss_def sum.case foldl_sadd_Val) simp
qed

lemma ex_episodes_values:
  "list_all (\<lambda>ep.
       compute_q_values ex_models (actions ep) (observations ep) (states ep)
         = Inr (ex_online_values ep)
       \<and> compute_q_values ex_target_models (actions ep) (observations ep) (states ep)
         = Inr (ex_target_values ep)
       \<and> qhs_loss ep (1 / 2) (fst (ex_online_values ep)) (snd (ex_online_values ep))
             (fst (ex_target_values ep)) (snd (ex_target_values ep))
         = Inr (Val (if length (actions ep) = 2 then 153 / 8 else 64))
       \<and> qh_loss ep (1 / 2) (fst (ex_online_values ep)) (snd (ex_online_values ep))
             (fst (ex_target_values ep)) (snd (ex_target_values ep))
         = Inr (Val (if length (actions ep) = 2 then 17 / 8 else 4)))
     [ex_episode, ex_short_episode]"
proof -
  have l: "length (actions ex_episode) = 2" "length (actions ex_short_episode) \<noteq> 2"
    by (simp_all add: ex_episode_def ex_short_episode_def)
  have s: "compute_q_values ex_models (actions ex_short_episode) (observations ex_short_episode)
        (states ex_short_episode) = Inr ([[5, 2]], [[11, 1]])"
    "compute_q_values ex_target_models (actions ex_short_episode) (observations ex_short_episode)
        (states ex_short_episode) = Inr ([[2, 5]], [[11, 3]])"
    using ex_short_q_values by (simp_all add: ex_short_episode_def)
  show ?thesis
    by (simp add: ex_online_values_def ex_target_values_def l s ex_online_of_episode
        ex_target_of_episode ex_losses)
qed

theorem episodic_loss_mean_witness:
  "[ex_episode, ex_short_episode] \<noteq> []
   \<and> list_all (\<lambda>ep.
       compute_q_values ex_models (actions ep) (observations ep) (states ep)
         = Inr (ex_online_values ep)
       \<and> compute_q_values ex_target_models (actions ep) (observations ep) (states ep)
         = Inr (ex_target_values ep)
       \<and> qhs_loss ep (1 / 2) (fst (ex_online_values ep)) (snd (ex_online_values ep))
             (fst (ex_target_values ep)) (snd (ex_target_values ep))
         = Inr (Val (if length (actions ep) = 2 then 153 / 8 else 64))
       \<and> qh_loss ep (1 / 2) (fst (ex_online_values ep)) (snd (ex_online_values ep))
             (fst (ex_target_values ep)) (snd (ex_target_values ep))
         = Inr (Val (if length (actions ep) = 2 then 17 / 8 else 4)))
     [ex_episode, ex_short_episode]
   \<and> episodic_loss ex_models ex_target_models (1 / 2) [ex_episode, ex_short_episode]
       = Inr (Val (357 / 16))"
proof -
  have h: "\<forall>ep \<in> set [ex_episode, ex_short_episode].
       compute_q_values ex_models (actions ep) (observations ep) (states ep)
         = Inr (ex_online_values ep)
       \<and> compute_q_values ex_target_models (actions ep) (observations ep) (states ep)
         = Inr (ex_target_values ep)
       \<and> qhs_loss ep (1 / 2) (fst (ex_online_values ep)) (snd (ex_online_values ep))
             (fst (ex_target_values ep)) (snd (ex_target_values ep))
         = Inr (Val (if length (actions ep) = 2 then 153 / 8 else 64))
       \<and> qh_loss ep (1 / 2) (fst (ex_online_values ep)) (snd (ex_online_values ep))
             (fst (ex_target_values ep)) (snd (ex_target_values ep))
         = Inr (Val (if length (actions ep) = 2 then 17 / 8 else 4))"
    using ex_episodes_values unfolding list_all_iff .
  have l: "length (actions ex_episode) = 2" "length (actions ex_short_episode) \<noteq> 2"
    by (simp_all add: ex_episode_def ex_short_episode_def)
  have "episodic_loss ex_models ex_target_models (1 / 2) [ex_episode, ex_short_episode]
       = Inr (Val (357 / 16))"
    using episodic_loss_mean [where episodes = "[ex_episode, ex_short_episode]"
        and ms = ex_models and target_ms = ex_target_models and d = "1 / 2"
        and online_of = ex_online_values and target_of = ex_target_values
        and a = "\<lambda>ep. if length (actions ep) = 2 then 153 / 8 else 64"
        and b = "\<lambda>ep. if length (actions ep) = 2 then 17 / 8 else 4", OF _ h]
    by (simp add: l)
  with ex_episodes_values show ?thesis by simp
qed

section \<open>\<open>TargetPolicy\<close> and the batched history\<close>

lemma roll_forward: 
  assumes "xs \<noteq> []"
  shows "roll 1 xs = last xs # butlast xs"
proof -
  have n: "0 < length xs" using assms by simp
  then have "(- 1) mod int (length xs) = int (length xs) - 1"
    by (simp add: zmod_minus1)
  then have k: "nat ((- 1) mod int (length xs)) = length xs - 1"
    by simp
  have "rotate (length xs - 1) xs = drop (length xs - 1) xs @ take (length xs - 1) xs"
    using n by (simp add: rotate_drop_take)
  moreover have "drop (length xs - 1) xs = [last xs]"
    using assms by (metis append_butlast_last_id append_eq_conv_conj length_butlast)
  moreover have "take (length xs - 1) xs = butlast xs"
    by (simp add: butlast_conv_take)
  ultimately show ?thesis using k by (simp add: roll_def)
qed

lemma policy_steps_visible:
  "visible xs = visible ys \<Longrightarrow> policy_steps m p xs = policy_steps m p ys"
proof (induction xs arbitrary: ys p)
  case Nil
  then show ?case by (simp add: visible_def)
next
  case (Cons x xs)
  then obtain y ys' where ys: "ys = y # ys'" by (cases ys) (auto simp: visible_def)
  obtain a ob st where x: "x = (a, ob, st)" by (cases x)
  obtain a' ob' st' where y: "y = (a', ob', st')" by (cases y)
  from Cons.prems ys x y have eq: "a' = a" "ob' = ob" "visible xs = visible ys'"
    by (auto simp: visible_def)
  show ?case using Cons.IH [OF eq(3)] by (simp add: ys x y eq Let_def)
qed

lemma compute_q_values_states:
  assumes "length sts = length sts'"
  shows "map_sum id fst (compute_q_values m acts obs sts) = map_sum id fst (compute_q_values m acts obs sts')"
  using assms by (simp add: compute_q_values_def Let_def split: sum.splits)

text \<open>
  C2.  Two runs of a \<open>TargetPolicy\<close> from the same policy state that are given the same
  actions and observations select the same action after the reset and after every step,
  whatever the privileged states of the environment are; and the history-conditioned Q
  values that \<open>compute_q_values\<close> returns do not depend on the states of the episode.
\<close>

theorem target_policy_ignores_state:
  "(visible xs = visible ys \<longrightarrow>
      map (po_sample_action m) (policy_states m p (ob, st) xs)
        = map (po_sample_action m) (policy_states m p (ob, st') ys))
   \<and> (length sts = length sts' \<longrightarrow>
      map_sum id fst (compute_q_values m acts obs sts)
        = map_sum id fst (compute_q_values m acts obs sts'))"
  using policy_steps_visible [of xs ys m] compute_q_values_states [of sts sts' m acts obs]
  by (simp add: Let_def)

lemma ex_policy_states:
  "map (po_sample_action ex_models) (policy_states ex_models TargetPolicy (1, 3) [(1, 2, 10)])
     = [Inr 1, Inr 0]"
  by (simp add: po_sample_action_def reset_def step_def update_def TargetPolicy_def ex_models_def
      rnn_def ex_cell_def Let_def sum_list_replicate)

theorem target_policy_ignores_state_witness:
  "visible [(1, 2, 10)] = visible [(1, 2 :: real, 20 :: real)]
   \<and> map (po_sample_action ex_models) (policy_states ex_models TargetPolicy (1, 3) [(1, 2, 10)])
       = [Inr 1, Inr 0]
   \<and> map (po_sample_action ex_models) (policy_states ex_models TargetPolicy (1, 30) [(1, 2, 20)])
       = [Inr 1, Inr 0]
   \<and> length [3, 4 :: real] = length [5, 6 :: real]
   \<and> map_sum id fst (compute_q_values ex_models [1, 0] [1, 2] [5, 6]) = Inr [[1, 2], [4, 2]]"
proof -
  have v: "visible [(1, 2, 10)] = visible [(1, 2 :: real, 20 :: real)]"
    by (simp add: visible_def)
  have l: "length [3, 4 :: real] = length [5, 6 :: real]"
    by simp
  have q: "map_sum id fst (compute_q_values ex_models [1, 0] [1, 2] [3, 4]) = Inr [[1, 2], [4, 2]]"
    by (simp add: ex_q_values)
  from target_policy_ignores_state [of "[(1, 2, 10)]" "[(1, 2, 20)]" ex_models TargetPolicy 1 3 30
      "[3, 4]" "[5, 6]" "[1, 0]" "[1, 2]"] v l q ex_policy_states
  show ?thesis by simp
qed

lemma unroll_single: "unroll cell h [x] = ([fst (cell h x)], snd (cell h x))"
  by (simp split: prod.splits)

lemma update_rnn:
  assumes "history_model m = rnn cell h0"
  shows "update m p af ob = \<lparr>history_features = Some [fst (cell (case hidden p of None \<Rightarrow> h0 | Some h \<Rightarrow> h) (af @ ob))],
      hidden = Some (snd (cell (case hidden p of None \<Rightarrow> h0 | Some h \<Rightarrow> h) (af @ ob)))\<rparr>"
  by (simp add: update_def assms rnn_def split: prod.splits)

text \<open>\<open>reset\<close> does not clear \<open>self.hidden\<close>: on a policy that has run before, the
  history goes on from the stored hidden state.\<close>

lemma reset_keeps_hidden:
  assumes "history_model m = rnn cell h0" and "hidden p = Some h"
  shows "history_features (reset m p ob)
           = Some [fst (cell h (replicate (action_model_dim m) 0 @ observation_model m ob))]"
  using assms by (simp add: reset_def update_rnn)

lemma policy_steps_rnn:
  assumes hm: "history_model m = rnn cell h0"
    and len: "length as = length os" "length os = length ss"
    and hid: "hidden p = Some h"
  shows "map history_features (policy_steps m p (zip as (zip os ss)))
           = map (\<lambda>row. Some [row])
               (fst (unroll cell h (map2 (@) (map (action_model m) as) (map (observation_model m) os))))"
  using len hid
proof (induction as os ss arbitrary: p h rule: list_induct3)
  case Nil
  then show ?case by simp
next
  case (Cons a as ob os st ss)
  let ?x = "action_model m a @ observation_model m ob"
  let ?p = "step m p a ob"
  have p': "?p = \<lparr>history_features = Some [fst (cell h ?x)], hidden = Some (snd (cell h ?x))\<rparr>"
    using Cons.prems by (simp add: step_def update_rnn [OF hm])
  then have "hidden ?p = Some (snd (cell h ?x))" by simp
  from Cons.IH [OF this] p' show ?case
    by (simp add: Let_def split: prod.splits)
qed

text \<open>For a recurrent history model and an action model of the declared width, the
  history features that \<open>compute_q_values\<close> computes for an episode are, row by row,
  the history features of a new \<open>TargetPolicy\<close> that is reset on the first observation
  and stepped on each later pair of the action taken and the observation that followed.\<close>

lemma new_policy_history_agrees:
  assumes hm: "history_model m = rnn cell h0"
    and dim: "list_all (\<lambda>a. length (action_model m a) = action_model_dim m) (actions ep)"
    and len: "length (actions ep) = length (observations ep)"
      "length (states ep) = length (observations ep)"
    and ne: "observations ep \<noteq> []"
  shows "map_sum id (map (\<lambda>row. Some [row])) (compute_history_features m (actions ep) (observations ep))
           = Inr (map history_features
                    (policy_states m TargetPolicy (episode_start ep) (episode_steps ep)))"
proof -
  let ?af = "map (action_model m) (actions ep)"
  let ?of = "map (observation_model m) (observations ep)"
  let ?zeros = "replicate (action_model_dim m) (0::real)"
  have ane: "actions ep \<noteq> []" using len ne by auto
  then have afne: "?af \<noteq> []" by simp
  have r: "roll 1 ?af = last ?af # butlast ?af" using roll_forward [OF afne] .
  have "last ?af = action_model m (last (actions ep))" using ane by (simp add: last_map)
  moreover have "last (actions ep) \<in> set (actions ep)" using ane by simp
  ultimately have ll: "length (last ?af) = action_model_dim m"
    using dim by (auto simp: list_all_iff)
  let ?rolled = "?zeros # map (action_model m) (butlast (actions ep))"
  have z: "(roll 1 ?af)[0 := replicate (length (roll 1 ?af ! 0)) 0] = ?rolled"
    by (simp add: r ll map_butlast)
  obtain o0 orest where obs: "observations ep = o0 # orest" using ne by (cases "observations ep") auto
  have lrolled: "length ?rolled = length ?of" using len ne by (cases "observations ep") auto
  let ?rest = "map2 (@) (map (action_model m) (butlast (actions ep))) (map (observation_model m) orest)"
  have inputs: "map2 (@) ?rolled ?of = (?zeros @ observation_model m o0) # ?rest"
    by (simp add: obs)
  have chf: "compute_history_features m (actions ep) (observations ep)
          = Inr (fst (unroll cell h0 ((?zeros @ observation_model m o0) # ?rest)))"
  proof -
    have pos: "0 < length (observations ep)" using ne by simp
    have e1: "roll 1 ?af \<noteq> []" using r by simp
    show ?thesis
      unfolding compute_history_features_def Let_def z using e1 pos len
      by (simp add: inputs hm rnn_def)
  qed
  let ?x0 = "?zeros @ observation_model m o0"
  let ?p0 = "reset m TargetPolicy o0"
  have p0: "?p0 = \<lparr>history_features = Some [fst (cell h0 ?x0)], hidden = Some (snd (cell h0 ?x0))\<rparr>"
    by (simp add: reset_def update_rnn [OF hm] TargetPolicy_def)
  then have hid: "hidden ?p0 = Some (snd (cell h0 ?x0))" by simp
  have l1: "length (butlast (actions ep)) = length orest" using len obs by simp
  have l2: "length orest = length (tl (states ep))" using len obs by simp
  have steps: "map history_features (policy_steps m ?p0 (zip (butlast (actions ep)) (zip orest (tl (states ep)))))
      = map (\<lambda>row. Some [row]) (fst (unroll cell (snd (cell h0 ?x0)) ?rest))"
    using policy_steps_rnn [OF hm l1 l2 hid] .
  have A: "map_sum id (map (\<lambda>row. Some [row])) (compute_history_features m (actions ep) (observations ep))
      = Inr (map (\<lambda>row. Some [row]) (fst (unroll cell h0 (?x0 # ?rest))))"
    by (simp add: chf)
  have B: "fst (unroll cell h0 (?x0 # ?rest))
      = fst (cell h0 ?x0) # fst (unroll cell (snd (cell h0 ?x0)) ?rest)"
    by (simp split: prod.splits)
  have C: "policy_states m TargetPolicy (episode_start ep) (episode_steps ep)
      = ?p0 # policy_steps m ?p0 (zip (butlast (actions ep)) (zip orest (tl (states ep))))"
    by (simp add: episode_start_def episode_steps_def obs Let_def)
  have D: "history_features ?p0 = Some [fst (cell h0 ?x0)]"
    using p0 by simp
  show ?thesis
    by (simp only: A B C list.map steps D)
qed

text \<open>
  C8.  The batched history features of \<open>compute_q_values\<close> and the sequential ones of
  \<open>TargetPolicy\<close> do not agree for every episode: on the example episode the batched
  features are \<open>[[1], [4]]\<close>, a new policy run over the episode has the same features,
  and the same policy object run over the episode a second time has the features
  \<open>[[5], [8]]\<close>, since \<open>reset\<close> goes on from the hidden state of the first run.
\<close>

theorem reused_policy_history_differs:
  "compute_history_features ex_models (actions ex_episode) (observations ex_episode)
     = Inr [[1], [4]]
   \<and> map history_features
       (policy_states ex_models TargetPolicy (episode_start ex_episode) (episode_steps ex_episode))
     = [Some [[1]], Some [[4]]]
   \<and> map history_features
       (policy_states ex_models
          (last (policy_states ex_models TargetPolicy (episode_start ex_episode)
                   (episode_steps ex_episode)))
          (episode_start ex_episode) (episode_steps ex_episode))
     = [Some [[5]], Some [[8]]]"
  by (simp add: compute_history_features_def ex_models_def roll_def rnn_def ex_cell_def
      episode_start_def episode_steps_def ex_episode_def reset_def step_def update_def
      TargetPolicy_def Let_def sum_list_replicate)

section \<open>\<open>make_models\<close>\<close>

lemma fullmatch_version_prefix:
  "fullmatch_version pre s \<longleftrightarrow> (\<exists>ds. ds \<noteq> [] \<and> list_all is_digit ds \<and> s = pre @ ds)"
proof
  assume f: "fullmatch_version pre s"
  then have a: "take (length pre) s = pre" and b: "drop (length pre) s \<noteq> []"
    and c: "list_all is_digit (drop (length pre) s)"
    by (simp_all add: fullmatch_version_def)
  have "s = take (length pre) s @ drop (length pre) s"
    by (rule append_take_drop_id [symmetric])
  then have "s = pre @ drop (length pre) s" by (simp only: a)
  with b c show "\<exists>ds. ds \<noteq> [] \<and> list_all is_digit ds \<and> s = pre @ ds" by blast
next
  assume "\<exists>ds. ds \<noteq> [] \<and> list_all is_digit ds \<and> s = pre @ ds"
  then obtain ds where "ds \<noteq> []" "list_all is_digit ds" "s = pre @ ds" by blast
  then show "fullmatch_version pre s" by (simp add: fullmatch_version_def)
qed

lemma fullmatch_version_versioned:
  "fullmatch_version (name @ ''-v'') s \<longleftrightarrow> versioned name s"
  unfolding versioned_def fullmatch_version_prefix by (simp only: append_assoc)

lemma make_models_box2d_keys:
  "map fst (make_models_box2d dim_of e)
     = [''action_model'', ''observation_model'', ''state_model'', ''history_model'',
        ''qh_model'', ''qhs_model'']"
  unfolding make_models_box2d_def Let_def by (simp only: list.map fst_conv)

lemma fullmatch_version_examples:
  "fullmatch_version ''CartPole-v'' ''CartPole-v1''"
  "\<not> fullmatch_version ''CartPole-v'' ''CartPole-v''"
  "\<not> fullmatch_version ''CartPole-v'' ''CartPole-v1b''"
  "\<not> fullmatch_version ''CartPole-v'' ''MountainCar-v0''"
  by (simp_all add: fullmatch_version_def is_digit_def)

text \<open>
  C9.  \<open>make_models\<close> returns the dictionary of \<open>make_models_box2d\<close> when the spec id of
  the environment is \<open>CartPole\<close>, \<open>Acrobot\<close> or \<open>LunarLander\<close> followed by \<open>-v\<close> and one
  digit or more, and raises \<open>NotImplementedError\<close> for every other id; the keys of that
  dictionary are the six model names.
\<close>

theorem make_models_box2d_iff:
  "make_models dim_of e =
     (if versioned ''CartPole'' (spec_id e) \<or> versioned ''Acrobot'' (spec_id e)
         \<or> versioned ''LunarLander'' (spec_id e)
      then Inr (make_models_box2d dim_of e) else Inl NotImplementedError)
   \<and> map fst (make_models_box2d dim_of e)
       = [''action_model'', ''observation_model'', ''state_model'', ''history_model'',
          ''qh_model'', ''qhs_model'']"
proof -
  have a: "''CartPole-v'' = ''CartPole'' @ ''-v''" by simp
  have b: "''Acrobot-v'' = ''Acrobot'' @ ''-v''" by simp
  have c: "''LunarLander-v'' = ''LunarLander'' @ ''-v''" by simp
  have "make_models dim_of e =
     (if versioned ''CartPole'' (spec_id e) \<or> versioned ''Acrobot'' (spec_id e)
         \<or> versioned ''LunarLander'' (spec_id e)
      then Inr (make_models_box2d dim_of e) else Inl NotImplementedError)"
    unfolding make_models_def
    by (simp only: a b c fullmatch_version_versioned)
  from this make_models_box2d_keys show ?thesis by (rule conjI)
qed

section \<open>The config singleton\<close>

lemma get_config_module: "module_config (snd (get_config s)) = Some (fst (get_config s))"
  by (simp add: get_config_def Config_init_def alloc_def split: option.splits prod.splits)

lemma get_config_same: "module_config s = Some c \<Longrightarrow> get_config s = (c, s)"
  by (simp add: get_config_def)

lemma later_module_config: "later s t \<Longrightarrow> module_config s = Some c \<Longrightarrow> module_config t = Some c"
proof (induction rule: later.induct)
  case (later_refl s)
  then show ?case by simp
next
  case (later_get_config s t)
  then show ?case by (simp add: get_config_same)
next
  case (later_clear s t c' t')
  then show ?case by (auto simp: Config_clear_def split: sum.splits)
next
  case (later_update s t c' cd t')
  then show ?case by (auto simp: Config_update_def split: sum.splits)
next
  case (later_as_dict s t c' r t')
  then show ?case by (auto simp: Config_as_dict_def alloc_def split: sum.splits)
next
  case (later_mutate s t r f)
  then show ?case by (simp add: dict_mutate_def split: obj.splits)
qed

lemma get_config_fresh:
  "module_config s = None \<Longrightarrow> length (heap s) < fst (get_config s)
     \<and> self_config (snd (get_config s)) (fst (get_config s)) = Inr (length (heap s), Map.empty)"
  by (simp add: get_config_def Config_init_def alloc_def self_config_def nth_append)

lemma as_dict_copy:
  assumes "self_config s c = Inr (d, m)" and "Config_as_dict s c = Inr (r, s')"
  shows "r \<noteq> d \<and> r < length (heap s') \<and> heap s' ! r = DictObj m
        \<and> self_config (dict_mutate s' r f) c = Inr (d, m)"
proof -
  from assms(1) have c: "c < length (heap s)" "heap s ! c = ConfigObj d" "d < length (heap s)"
    "heap s ! d = DictObj m"
    by (auto simp: self_config_def split: if_splits obj.splits)
  from assms have r: "r = length (heap s)" "s' = s\<lparr>heap := heap s @ [DictObj m]\<rparr>"
    by (auto simp: Config_as_dict_def alloc_def)
  have "dict_mutate s' r f = s\<lparr>heap := heap s @ [DictObj (f m)]\<rparr>"
    by (simp add: dict_mutate_def r)
  then have "self_config (dict_mutate s' r f) c = Inr (d, m)"
    using c by (simp add: self_config_def nth_append)
  then show ?thesis using c r by simp
qed

text \<open>
  C10.  After a call of \<open>get_config\<close>, every later call returns the same \<open>Config\<close>
  object and changes nothing, whatever \<open>Config\<close> methods and dict mutations come between;
  the first call creates that object with an empty dict.  \<open>_as_dict\<close> returns a new dict
  object with the contents of the config's dict, and no mutation of the returned dict
  changes what \<open>__getattr__\<close> and \<open>_get\<close> read through the config.
\<close>

theorem config_singleton_and_copy:
  "(later (snd (get_config s)) t \<longrightarrow> get_config t = (fst (get_config s), t))
   \<and> (self_config u c = Inr (d, m) \<and> Config_as_dict u c = Inr (r, u') \<longrightarrow>
        r \<noteq> d \<and> r < length (heap u') \<and> heap u' ! r = DictObj m
        \<and> Config_getattr (dict_mutate u' r f) c name = Config_getattr u c name
        \<and> Config_get (dict_mutate u' r f) c name dflt = Config_get u c name dflt)
   \<and> (module_config v = None \<longrightarrow>
        length (heap v) < fst (get_config v)
        \<and> self_config (snd (get_config v)) (fst (get_config v)) = Inr (length (heap v), Map.empty))"
proof (intro conjI impI)
  assume "module_config v = None"
  then show "length (heap v) < fst (get_config v)"
    using get_config_fresh by blast
next
  assume "module_config v = None"
  then show "self_config (snd (get_config v)) (fst (get_config v)) = Inr (length (heap v), Map.empty)"
    using get_config_fresh by blast
next
  assume "later (snd (get_config s)) t"
  then have "module_config t = Some (fst (get_config s))"
    using get_config_module by (rule later_module_config)
  then show "get_config t = (fst (get_config s), t)" by (rule get_config_same)
next
  assume a: "self_config u c = Inr (d, m) \<and> Config_as_dict u c = Inr (r, u')"
  then have k: "r \<noteq> d \<and> r < length (heap u') \<and> heap u' ! r = DictObj m
        \<and> self_config (dict_mutate u' r f) c = Inr (d, m)"
    using as_dict_copy by blast
  from k show "r \<noteq> d" by simp
  from k show "r < length (heap u')" by simp
  from k show "heap u' ! r = DictObj m" by simp
  from k a show "Config_getattr (dict_mutate u' r f) c name = Config_getattr u c name"
    by (simp add: Config_getattr_def)
  from k a show "Config_get (dict_mutate u' r f) c name dflt = Config_get u c name dflt"
    by (simp add: Config_get_def)
qed

theorem config_singleton_and_copy_witness:
  "module_config ex_state = None
   \<and> fst (get_config ex_state) = 1
   \<and> later (snd (get_config ex_state)) ex_state_updated
   \<and> get_config ex_state_updated = (1, ex_state_updated)
   \<and> self_config ex_state_updated 1 = Inr (0, [''seed'' \<mapsto> PyInt 7])
   \<and> Config_as_dict ex_state_updated 1 = Inr (2, ex_state_copied)
   \<and> Config_getattr (dict_mutate ex_state_copied 2 (\<lambda>m. m(''seed'' \<mapsto> PyInt 9))) 1 ''seed''
       = Inr (PyInt 7)
   \<and> Config_get (dict_mutate ex_state_copied 2 (\<lambda>m. m(''seed'' \<mapsto> PyInt 9))) 1 ''seed'' PyNone
       = Inr (PyInt 7)"
proof -
  let ?s1 = "\<lparr>heap = [DictObj Map.empty, ConfigObj 0], module_config = Some 1\<rparr>"
  have g: "get_config ex_state = (1, ?s1)"
    by (simp add: get_config_def Config_init_def alloc_def ex_state_def)
  have u: "Config_update ?s1 1 [''seed'' \<mapsto> PyInt 7] = Inr ex_state_updated"
    by (simp add: Config_update_def self_config_def ex_state_updated_def)
  have l: "later (snd (get_config ex_state)) ex_state_updated"
    using later_update [OF later_refl u] g by simp
  have sc: "self_config ex_state_updated 1 = Inr (0, [''seed'' \<mapsto> PyInt 7])"
    by (simp add: self_config_def ex_state_updated_def)
  have ad: "Config_as_dict ex_state_updated 1 = Inr (2, ex_state_copied)"
    unfolding Config_as_dict_def sc
    by (simp add: alloc_def ex_state_updated_def ex_state_copied_def)
  have ga: "Config_getattr ex_state_updated 1 ''seed'' = Inr (PyInt 7)"
    unfolding Config_getattr_def sc by simp
  have ge: "Config_get ex_state_updated 1 ''seed'' PyNone = Inr (PyInt 7)"
    unfolding Config_get_def sc by simp
  from config_singleton_and_copy [of ex_state ex_state_updated ex_state_updated 1 0
      "[''seed'' \<mapsto> PyInt 7]" 2 ex_state_copied "\<lambda>m. m(''seed'' \<mapsto> PyInt 9)" "''seed''" PyNone
      ex_state]
    l sc ad g ga ge
  show ?thesis by (simp add: ex_state_def)
qed

section \<open>Checkpoints, control flow and training of \<open>main_a2c\<close>\<close>

lemma make_checkpoint_stores:
  assumes "make_checkpoint ext cfg runstate = Inr cp"
  shows "config (metadata cp) = cfg \<and> cfg ''wandb_run_id'' = Some (wandb_run_id (metadata cp))
    \<and> data cp =
        \<lparr>algo_state_dict = state_dict ext (algo runstate),
         CheckpointData.datalogger = Runstate.datalogger runstate,
         CheckpointData.timer = Runstate.timer runstate,
         CheckpointData.xstats = Runstate.xstats runstate,
         CheckpointData.averages = Runstate.averages runstate,
         CheckpointData.dispensers = Runstate.dispensers runstate\<rparr>"
  using assms
  by (auto simp: make_checkpoint_def getattr_def split: option.splits)

lemma make_runstate_resume:
  assumes "make_runstate ext cfg (Some cp) = Inr runstate'"
  shows "\<exists>fresh algo1. make_runstate ext cfg None = Inr fresh
      \<and> load_state_dict ext (algo fresh) (algo_state_dict (data cp)) = Inr algo1
      \<and> runstate' = fresh
           \<lparr>algo := algo1,
            Runstate.datalogger := CheckpointData.datalogger (data cp),
            Runstate.timer := CheckpointData.timer (data cp),
            Runstate.xstats := CheckpointData.xstats (data cp),
            Runstate.averages := CheckpointData.averages (data cp),
            Runstate.dispensers := CheckpointData.dispensers (data cp)\<rparr>"
proof -
  from assms obtain env0 algo0 device0 where a: "make_env_algo_device ext cfg = Inr (env0, algo0, device0)"
    by (auto simp: make_runstate_def split: sum.splits)
  from assms a obtain dispensers0 where b: "make_dispensers ext cfg = Inr dispensers0"
    by (auto simp: make_runstate_def split: sum.splits)
  from assms a b obtain f0 s0 q0 t0 where c: "make_loop_parts ext cfg env0 algo0 = Inr (f0, s0, q0, t0)"
    by (auto simp: make_runstate_def split: sum.splits)
  from assms a b c obtain algo1 where d: "load_state_dict ext algo0 (algo_state_dict (data cp)) = Inr algo1"
    by (auto simp: make_runstate_def Let_def split: sum.splits)
  show ?thesis
    using assms by (simp add: make_runstate_def a b c d Let_def)
qed


text \<open>
  C5.  \<open>make_checkpoint\<close> stores the config dict and the wandb run id as metadata and,
  as data, the state dict of the algorithm, the data logger, the timer, the xstats, the
  averages and the dispensers of the run state.  When the state dict that
  \<open>load_state_dict\<close> loads is the one \<open>state_dict\<close> returns afterwards, the run state
  that \<open>make_runstate\<close> makes from that checkpoint has these six components equal to
  those of the original run state, and its other components are the newly made ones.
\<close>

theorem checkpoint_roundtrip:
  assumes "make_checkpoint ext cfg runstate = Inr cp"
    and "make_runstate ext cfg' (Some cp) = Inr runstate'"
    and "\<forall>a sd a'. load_state_dict ext a sd = Inr a' \<longrightarrow> state_dict ext a' = sd"
  shows "config (metadata cp) = cfg \<and> cfg ''wandb_run_id'' = Some (wandb_run_id (metadata cp))
    \<and> data cp =
        \<lparr>algo_state_dict = state_dict ext (algo runstate),
         CheckpointData.datalogger = Runstate.datalogger runstate,
         CheckpointData.timer = Runstate.timer runstate,
         CheckpointData.xstats = Runstate.xstats runstate,
         CheckpointData.averages = Runstate.averages runstate,
         CheckpointData.dispensers = Runstate.dispensers runstate\<rparr>
    \<and> state_dict ext (algo runstate') = state_dict ext (algo runstate)
    \<and> Runstate.datalogger runstate' = Runstate.datalogger runstate
    \<and> Runstate.timer runstate' = Runstate.timer runstate
    \<and> Runstate.xstats runstate' = Runstate.xstats runstate
    \<and> Runstate.averages runstate' = Runstate.averages runstate
    \<and> Runstate.dispensers runstate' = Runstate.dispensers runstate
    \<and> (\<exists>fresh. make_runstate ext cfg' None = Inr fresh
          \<and> env runstate' = env fresh \<and> target_updater runstate' = target_updater fresh
          \<and> episodes_factories runstate' = episodes_factories fresh
          \<and> device runstate' = device fresh
          \<and> negentropy_schedule runstate' = negentropy_schedule fresh
          \<and> q_estimator runstate' = q_estimator fresh)"
proof -
  note st = make_checkpoint_stores [OF assms(1)]
  then have d: "algo_state_dict (data cp) = state_dict ext (algo runstate)"
    "CheckpointData.datalogger (data cp) = Runstate.datalogger runstate"
    "CheckpointData.timer (data cp) = Runstate.timer runstate"
    "CheckpointData.xstats (data cp) = Runstate.xstats runstate"
    "CheckpointData.averages (data cp) = Runstate.averages runstate"
    "CheckpointData.dispensers (data cp) = Runstate.dispensers runstate"
    by simp_all
  from make_runstate_resume [OF assms(2)] obtain fresh algo1 where
    f: "make_runstate ext cfg' None = Inr fresh"
    and l: "load_state_dict ext (algo fresh) (algo_state_dict (data cp)) = Inr algo1"
    and r: "runstate' = fresh
           \<lparr>algo := algo1,
            Runstate.datalogger := CheckpointData.datalogger (data cp),
            Runstate.timer := CheckpointData.timer (data cp),
            Runstate.xstats := CheckpointData.xstats (data cp),
            Runstate.averages := CheckpointData.averages (data cp),
            Runstate.dispensers := CheckpointData.dispensers (data cp)\<rparr>"
    by blast
  from l assms(3) have "state_dict ext algo1 = algo_state_dict (data cp)" by blast
  then have a: "state_dict ext (algo runstate') = state_dict ext (algo runstate)"
    by (simp add: r d)
  have rest: "\<exists>fresh. make_runstate ext cfg' None = Inr fresh
          \<and> env runstate' = env fresh \<and> target_updater runstate' = target_updater fresh
          \<and> episodes_factories runstate' = episodes_factories fresh
          \<and> device runstate' = device fresh
          \<and> negentropy_schedule runstate' = negentropy_schedule fresh
          \<and> q_estimator runstate' = q_estimator fresh"
    using f by (simp add: r)
  show ?thesis using st a rest by (simp add: r d)
qed

lemma ex_getattr:
  "getattr ex_config ''wandb_run_id'' = Inr (PyStr ''run'')"
  "getattr ex_config ''target_update_function'' = Inr (PyStr ''full'')"
  "getattr ex_config ''target_update_full_period'' = Inr (PyInt 10000)"
  "getattr ex_config ''max_simulation_timesteps'' = Inr (PyInt 2000000)"
  "getattr ex_config ''num_data_logs'' = Inr (PyInt 200)"
  "getattr ex_config ''checkpoint_period'' = Inr (PyInt 600)"
  "getattr ex_config ''evaluation'' = Inr (PyBool True)"
  "getattr ex_config ''evaluation_period'' = Inr (PyInt 10)"
  "getattr ex_config ''save_modelseq'' = Inr (PyBool False)"
  "getattr ex_config ''training_discount'' = Inr (PyFloat (99 / 100))"
  by (simp_all add: getattr_def ex_config_def)

lemma ex_make_checkpoint: "make_checkpoint ex_externals ex_config ex_runstate = Inr ex_checkpoint"
  unfolding make_checkpoint_def ex_getattr
  by (simp add: ex_checkpoint_def ex_externals_def ex_runstate_def)

lemma ex_make_dispensers:
  "make_dispensers ex_externals ex_config
     = Inr \<lparr>target_update = (0, PyInt 10000), datalog = (0, PyInt 10000), checkpoint = PyInt 600\<rparr>"
  unfolding make_dispensers_def make_target_update_dispenser_def ex_getattr
  by (simp add: py_floordiv_def ex_externals_def)

lemma ex_make_runstate:
  "make_runstate ex_externals ex_config (Some ex_checkpoint)
     = Inr (ex_runstate\<lparr>negentropy_schedule := (\<lambda>n. 1 / 2)\<rparr>)"
  unfolding make_runstate_def ex_make_dispensers
  by (simp add: ex_externals_def ex_checkpoint_def ex_runstate_def)

theorem checkpoint_roundtrip_witness:
  "make_checkpoint ex_externals ex_config ex_runstate = Inr ex_checkpoint
   \<and> make_runstate ex_externals ex_config (Some ex_checkpoint)
       = Inr (ex_runstate\<lparr>negentropy_schedule := (\<lambda>n. 1 / 2)\<rparr>)
   \<and> state_dict ex_externals (algo (ex_runstate\<lparr>negentropy_schedule := (\<lambda>n. 1 / 2)\<rparr>)) = 5
   \<and> data ex_checkpoint =
        \<lparr>algo_state_dict = 5,
         CheckpointData.datalogger = 1,
         CheckpointData.timer = 2,
         CheckpointData.xstats = Runstate.xstats ex_runstate,
         CheckpointData.averages = \<lparr>target = 3, behavior = 4, behavior100 = 5\<rparr>,
         CheckpointData.dispensers = Runstate.dispensers ex_runstate\<rparr>"
proof -
  have h: "\<forall>a sd a'. load_state_dict ex_externals a sd = Inr a' \<longrightarrow> state_dict ex_externals a' = sd"
    by (simp add: ex_externals_def)
  from checkpoint_roundtrip [OF ex_make_checkpoint ex_make_runstate h]
    ex_make_checkpoint ex_make_runstate
  show ?thesis by (simp add: ex_runstate_def ex_externals_def)
qed

lemma py_mod_int: "p \<noteq> 0 \<Longrightarrow> py_mod (PyInt e) (PyInt p) = Inr (PyInt (e mod p))"
  by (simp add: py_mod_def)

lemma py_floordiv_int: "n \<noteq> 0 \<Longrightarrow> py_floordiv (PyInt m) (PyInt n) = Inr (PyInt (m div n))"
  by (simp add: py_floordiv_def)

lemma py_eq_zero_int: "py_eq_zero (PyInt k) = (k = 0)"
  by (simp add: py_eq_zero_def)

lemma update_controlflow_flags:
  assumes "cfg ''evaluation_period'' = Some (PyInt p)" "p \<noteq> 0"
    "cfg ''evaluation'' = Some (PyBool ev)" "cfg ''save_modelseq'' = Some sm"
  shows "\<exists>cf' rs'. update_controlflow ext cfg runstate controlflow = Inr (cf', rs')
       \<and> log_data cf' = fst (dispense ext (datalog (Runstate.dispensers runstate))
                                (simulation_timesteps (Runstate.xstats runstate)))
       \<and> update_target_parameters cf'
           = fst (dispense ext (target_update (Runstate.dispensers runstate))
                    (simulation_timesteps (Runstate.xstats runstate)))
       \<and> truthy (evaluate cf') = (ev \<and> p dvd epoch (Runstate.xstats runstate))"
  using assms
  by (simp add: update_controlflow_def getattr_def py_mod_int py_eq_zero_int dvd_eq_mod_eq_0
      split: prod.splits)

lemma run_epoch_calls_gates:
  "(Call_run_evaluation \<in> set (run_epoch_calls cf)) = truthy (evaluate cf)"
  "(Call_log_xstats \<in> set (run_epoch_calls cf)) = log_data cf"
  "(Call_target_updater \<in> set (run_epoch_calls cf)) = update_target_parameters cf"
  by (simp_all add: run_epoch_calls_def)

lemma make_dispensers_periods:
  assumes "cfg ''max_simulation_timesteps'' = Some (PyInt M)" "cfg ''num_data_logs'' = Some (PyInt N)"
    "N \<noteq> 0" "cfg ''checkpoint_period'' = Some cpp" "cfg ''target_update_function'' = Some (PyStr f)"
    "f = ''full'' \<and> cfg ''target_update_full_period'' = Some P \<or> f = ''polyak''"
  shows "make_dispensers ext cfg
     = Inr \<lparr>target_update = (if f = ''full'' then Dispenser ext 0 P else Dispenser ext 0 (PyInt 0)),
            datalog = Dispenser ext 0 (PyInt (M div N)),
            checkpoint = snd (time_dispense ext (TimeDispenser ext cpp))\<rparr>"
  using assms
  by (auto simp: make_dispensers_def make_target_update_dispenser_def getattr_def py_floordiv_int)

lemma make_runstate_dispensers:
  assumes "make_runstate ext cfg None = Inr rs" "make_dispensers ext cfg = Inr d"
  shows "Runstate.dispensers rs = d"
  using assms by (auto simp: make_runstate_def Let_def split: sum.splits)

text \<open>
  C7.  With an integer evaluation period other than zero and a Boolean evaluation flag,
  \<open>update_controlflow\<close> succeeds; the epoch then runs the evaluation exactly when the flag
  is set and the period divides the epoch number, and logs data and updates the target
  parameters exactly when the data-log and the target-update dispenser dispense at the
  current simulation timesteps.  \<open>make_runstate\<close> constructs the data-log dispenser as
  \<open>Dispenser(0, max_simulation_timesteps // num_data_logs)\<close> and the target-update
  dispenser as \<open>Dispenser(0, target_update_full_period)\<close> for \<open>full\<close> and
  \<open>Dispenser(0, 0)\<close> for \<open>polyak\<close>.
\<close>

theorem periodic_events_gated:
  "(cfg ''evaluation_period'' = Some (PyInt p) \<and> p \<noteq> 0 \<and> cfg ''evaluation'' = Some (PyBool ev)
      \<and> cfg ''save_modelseq'' = Some sm \<longrightarrow>
     (\<exists>cf' rs'. update_controlflow ext cfg runstate controlflow = Inr (cf', rs')
        \<and> log_data cf' = fst (dispense ext (datalog (Runstate.dispensers runstate))
                                 (simulation_timesteps (Runstate.xstats runstate)))
        \<and> update_target_parameters cf'
            = fst (dispense ext (target_update (Runstate.dispensers runstate))
                     (simulation_timesteps (Runstate.xstats runstate)))
        \<and> (Call_run_evaluation \<in> set (run_epoch_calls cf'))
            = (ev \<and> p dvd epoch (Runstate.xstats runstate))
        \<and> (Call_log_xstats \<in> set (run_epoch_calls cf')) = log_data cf'
        \<and> (Call_target_updater \<in> set (run_epoch_calls cf')) = update_target_parameters cf'))
   \<and> (cfg ''max_simulation_timesteps'' = Some (PyInt M) \<and> cfg ''num_data_logs'' = Some (PyInt N)
      \<and> N \<noteq> 0 \<and> cfg ''checkpoint_period'' = Some cpp
      \<and> cfg ''target_update_function'' = Some (PyStr f)
      \<and> (f = ''full'' \<and> cfg ''target_update_full_period'' = Some P \<or> f = ''polyak'') \<longrightarrow>
     make_dispensers ext cfg
       = Inr \<lparr>target_update = (if f = ''full'' then Dispenser ext 0 P else Dispenser ext 0 (PyInt 0)),
              datalog = Dispenser ext 0 (PyInt (M div N)),
              checkpoint = snd (time_dispense ext (TimeDispenser ext cpp))\<rparr>
     \<and> (\<forall>rs. make_runstate ext cfg None = Inr rs \<longrightarrow>
           datalog (Runstate.dispensers rs) = Dispenser ext 0 (PyInt (M div N))
           \<and> target_update (Runstate.dispensers rs)
               = (if f = ''full'' then Dispenser ext 0 P else Dispenser ext 0 (PyInt 0))))"
proof (intro conjI impI)
  assume a: "cfg ''evaluation_period'' = Some (PyInt p) \<and> p \<noteq> 0 \<and> cfg ''evaluation'' = Some (PyBool ev)
      \<and> cfg ''save_modelseq'' = Some sm"
  then obtain cf' rs' where r: "update_controlflow ext cfg runstate controlflow = Inr (cf', rs')"
    "log_data cf' = fst (dispense ext (datalog (Runstate.dispensers runstate))
                                 (simulation_timesteps (Runstate.xstats runstate)))"
    "update_target_parameters cf'
            = fst (dispense ext (target_update (Runstate.dispensers runstate))
                     (simulation_timesteps (Runstate.xstats runstate)))"
    "truthy (evaluate cf') = (ev \<and> p dvd epoch (Runstate.xstats runstate))"
    using update_controlflow_flags [of cfg p ev sm ext runstate controlflow] by blast
  then show "\<exists>cf' rs'. update_controlflow ext cfg runstate controlflow = Inr (cf', rs')
        \<and> log_data cf' = fst (dispense ext (datalog (Runstate.dispensers runstate))
                                 (simulation_timesteps (Runstate.xstats runstate)))
        \<and> update_target_parameters cf'
            = fst (dispense ext (target_update (Runstate.dispensers runstate))
                     (simulation_timesteps (Runstate.xstats runstate)))
        \<and> (Call_run_evaluation \<in> set (run_epoch_calls cf'))
            = (ev \<and> p dvd epoch (Runstate.xstats runstate))
        \<and> (Call_log_xstats \<in> set (run_epoch_calls cf')) = log_data cf'
        \<and> (Call_target_updater \<in> set (run_epoch_calls cf')) = update_target_parameters cf'"
    by (simp add: run_epoch_calls_gates)
next
  assume b: "cfg ''max_simulation_timesteps'' = Some (PyInt M) \<and> cfg ''num_data_logs'' = Some (PyInt N)
      \<and> N \<noteq> 0 \<and> cfg ''checkpoint_period'' = Some cpp
      \<and> cfg ''target_update_function'' = Some (PyStr f)
      \<and> (f = ''full'' \<and> cfg ''target_update_full_period'' = Some P \<or> f = ''polyak'')"
  then have d: "make_dispensers ext cfg
       = Inr \<lparr>target_update = (if f = ''full'' then Dispenser ext 0 P else Dispenser ext 0 (PyInt 0)),
              datalog = Dispenser ext 0 (PyInt (M div N)),
              checkpoint = snd (time_dispense ext (TimeDispenser ext cpp))\<rparr>"
    using make_dispensers_periods [of cfg M N cpp f P ext] by blast
  then show "make_dispensers ext cfg
       = Inr \<lparr>target_update = (if f = ''full'' then Dispenser ext 0 P else Dispenser ext 0 (PyInt 0)),
              datalog = Dispenser ext 0 (PyInt (M div N)),
              checkpoint = snd (time_dispense ext (TimeDispenser ext cpp))\<rparr>" .
  show "\<forall>rs. make_runstate ext cfg None = Inr rs \<longrightarrow>
           datalog (Runstate.dispensers rs) = Dispenser ext 0 (PyInt (M div N))
           \<and> target_update (Runstate.dispensers rs)
               = (if f = ''full'' then Dispenser ext 0 P else Dispenser ext 0 (PyInt 0))"
  proof (intro allI impI)
    fix rs assume "make_runstate ext cfg None = Inr rs"
    from make_runstate_dispensers [OF this d]
    show "datalog (Runstate.dispensers rs) = Dispenser ext 0 (PyInt (M div N))
           \<and> target_update (Runstate.dispensers rs)
               = (if f = ''full'' then Dispenser ext 0 P else Dispenser ext 0 (PyInt 0))"
      by simp
  qed
qed

lemma ex_config_lookups:
  "ex_config ''evaluation_period'' = Some (PyInt 10)"
  "ex_config ''evaluation'' = Some (PyBool True)"
  "ex_config ''save_modelseq'' = Some (PyBool False)"
  "ex_config ''max_simulation_timesteps'' = Some (PyInt 2000000)"
  "ex_config ''num_data_logs'' = Some (PyInt 200)"
  "ex_config ''checkpoint_period'' = Some (PyInt 600)"
  "ex_config ''target_update_function'' = Some (PyStr ''full'')"
  "ex_config ''target_update_full_period'' = Some (PyInt 10000)"
  "ex_config ''training_discount'' = Some (PyFloat (99 / 100))"
  by (simp_all add: ex_config_def)

lemma ex_update_controlflow:
  "map_sum id (\<lambda>r. run_epoch_calls (fst r))
       (update_controlflow ex_externals ex_config ex_runstate ex_controlflow)
     = Inr [Call_run_evaluation, Call_run_simulation, Call_target_updater, Call_run_training,
            Call_update_xstats_epoch]"
  unfolding update_controlflow_def ex_getattr
  by (simp add: ex_externals_def ex_runstate_def ex_dispense_def py_mod_def py_eq_zero_def
      run_epoch_calls_def ex_controlflow_def)

theorem periodic_events_gated_witness:
  "ex_config ''evaluation_period'' = Some (PyInt 10) \<and> (10 :: int) \<noteq> 0
   \<and> ex_config ''evaluation'' = Some (PyBool True)
   \<and> ex_config ''save_modelseq'' = Some (PyBool False)
   \<and> ex_config ''max_simulation_timesteps'' = Some (PyInt 2000000)
   \<and> ex_config ''num_data_logs'' = Some (PyInt 200) \<and> (200 :: int) \<noteq> 0
   \<and> ex_config ''checkpoint_period'' = Some (PyInt 600)
   \<and> ex_config ''target_update_function'' = Some (PyStr ''full'')
   \<and> ex_config ''target_update_full_period'' = Some (PyInt 10000)
   \<and> map_sum id (\<lambda>r. run_epoch_calls (fst r))
         (update_controlflow ex_externals ex_config ex_runstate ex_controlflow)
       = Inr [Call_run_evaluation, Call_run_simulation, Call_target_updater, Call_run_training,
              Call_update_xstats_epoch]
   \<and> make_dispensers ex_externals ex_config
       = Inr \<lparr>target_update = (0, PyInt 10000), datalog = (0, PyInt 10000), checkpoint = PyInt 600\<rparr>"
  using periodic_events_gated [of ex_config 10 True "PyBool False" ex_externals ex_runstate
      ex_controlflow 2000000 200 "PyInt 600" "''full''" "PyInt 10000"]
    ex_update_controlflow
  by (simp add: ex_config_lookups) (simp add: ex_externals_def)

lemma episodes_losses_map:
  assumes "cfg ''training_discount'' = Some discount"
    and "\<forall>episode \<in> set episodes.
           compute_losses ext (algo runstate) (f episode) discount (q_estimator runstate)
             = Inr (loss_of episode)"
  shows "episodes_losses ext cfg runstate (map f episodes) = Inr (map loss_of episodes)"
  using assms by (induction episodes) (simp_all add: getattr_def)

lemma average_losses_key:
  assumes "ls \<noteq> []" and "list_all (\<lambda>l. l key \<noteq> None) ls"
  shows "\<exists>L. average_losses ls = Inr L \<and> getitem L key = Inr (mean_loss ls key)"
  using assms by (simp add: average_losses_def getitem_def mean_loss_def)

text \<open>
  C6.  In a training step on a non-empty list of episodes whose losses, computed with
  the training discount of the config, have the keys \<open>policy\<close>, \<open>negentropy\<close> and
  \<open>critic\<close>, the losses are the per-key averages over the episodes, and the gradient
  step is given the actor objective \<open>losses['policy'] + w * losses['negentropy']\<close>, with
  \<open>w\<close> the negentropy schedule at the current simulation timesteps, and the critic
  objective \<open>losses['critic']\<close>.
\<close>

theorem actor_critic_objectives:
  assumes ne: "episodes \<noteq> []"
    and disc: "cfg ''training_discount'' = Some discount"
    and per: "\<forall>episode \<in> set episodes.
           compute_losses ext (algo runstate) (to_device ext episode (device runstate)) discount
             (q_estimator runstate) = Inr (loss_of episode)"
    and keys: "\<forall>episode \<in> set episodes. loss_of episode ''policy'' \<noteq> None
           \<and> loss_of episode ''negentropy'' \<noteq> None \<and> loss_of episode ''critic'' \<noteq> None"
    and ls: "ls = map loss_of episodes"
    and w: "w = negentropy_schedule runstate (simulation_timesteps (Runstate.xstats runstate))"
    and obj: "objectives = [(''actor'', mean_loss ls ''policy'' + w * mean_loss ls ''negentropy''),
                           (''critic'', mean_loss ls ''critic'')]"
  shows "\<exists>L. L ''policy'' = Some (mean_loss ls ''policy'')
           \<and> L ''negentropy'' = Some (mean_loss ls ''negentropy'')
           \<and> L ''critic'' = Some (mean_loss ls ''critic'')
           \<and> run_training ext cfg runstate controlflow episodes =
               (case gradient_step ext (algo runstate) objectives of
                  Inl e \<Rightarrow> Inl e
                | Inr (g, a) \<Rightarrow>
                    Inr (objectives,
                         \<lparr>negentropy_weight = w, losses = L, gradient_norms = g\<rparr>,
                         runstate
                           \<lparr>algo := a,
                            Runstate.xstats :=
                              update_xstats_optimizer ext
                                (update_xstats_training ext (Runstate.xstats runstate)
                                   (map (\<lambda>episode. to_device ext episode (device runstate))
                                      episodes))\<rparr>))"
proof -
  let ?eps = "map (\<lambda>episode. to_device ext episode (device runstate)) episodes"
  have el: "episodes_losses ext cfg runstate ?eps = Inr ls"
    unfolding ls using disc per by (rule episodes_losses_map)
  have lne: "ls \<noteq> []" using ne ls by simp
  have all: "list_all (\<lambda>l. l ''policy'' \<noteq> None) ls" "list_all (\<lambda>l. l ''negentropy'' \<noteq> None) ls"
    "list_all (\<lambda>l. l ''critic'' \<noteq> None) ls"
    using keys by (auto simp: ls list_all_iff)
  obtain L where L: "average_losses ls = Inr L"
    using lne by (simp add: average_losses_def)
  have g: "getitem L ''policy'' = Inr (mean_loss ls ''policy'')"
    "getitem L ''negentropy'' = Inr (mean_loss ls ''negentropy'')"
    "getitem L ''critic'' = Inr (mean_loss ls ''critic'')"
    using average_losses_key [OF lne all(1)] average_losses_key [OF lne all(2)]
      average_losses_key [OF lne all(3)] L by auto
  then have v: "L ''policy'' = Some (mean_loss ls ''policy'')"
    "L ''negentropy'' = Some (mean_loss ls ''negentropy'')"
    "L ''critic'' = Some (mean_loss ls ''critic'')"
    by (auto simp: getitem_def split: option.splits)
  have "run_training ext cfg runstate controlflow episodes =
               (case gradient_step ext (algo runstate) objectives of
                  Inl e \<Rightarrow> Inl e
                | Inr (g, a) \<Rightarrow>
                    Inr (objectives,
                         \<lparr>negentropy_weight = w, losses = L, gradient_norms = g\<rparr>,
                         runstate
                           \<lparr>algo := a,
                            Runstate.xstats :=
                              update_xstats_optimizer ext
                                (update_xstats_training ext (Runstate.xstats runstate) ?eps)\<rparr>))"
    unfolding run_training_def Let_def el L g sum.case obj w ..
  with v show ?thesis by blast
qed

theorem actor_critic_objectives_witness:
  "[1, 3 :: nat] \<noteq> []
   \<and> ex_config ''training_discount'' = Some (PyFloat (99 / 100))
   \<and> list_all (\<lambda>episode.
         compute_losses ex_externals (algo ex_runstate)
           (to_device ex_externals episode (device ex_runstate)) (PyFloat (99 / 100))
           (q_estimator ex_runstate) = Inr (ex_loss episode)) [1, 3]
   \<and> list_all (\<lambda>episode. ex_loss episode ''policy'' \<noteq> None
         \<and> ex_loss episode ''negentropy'' \<noteq> None \<and> ex_loss episode ''critic'' \<noteq> None) [1, 3]
   \<and> mean_loss (map ex_loss [1, 3]) ''policy'' = 2
   \<and> mean_loss (map ex_loss [1, 3]) ''negentropy'' = 2
   \<and> mean_loss (map ex_loss [1, 3]) ''critic'' = 4
   \<and> negentropy_schedule ex_runstate (simulation_timesteps (Runstate.xstats ex_runstate)) = 1 / 2
   \<and> map_sum id fst (run_training ex_externals ex_config ex_runstate ex_controlflow [1, 3])
       = Inr [(''actor'', 3), (''critic'', 4)]"
proof -
  have ne: "[1, 3 :: nat] \<noteq> []" by simp
  have disc: "ex_config ''training_discount'' = Some (PyFloat (99 / 100))"
    by (rule ex_config_lookups)
  have per: "\<forall>episode \<in> set [1, 3 :: nat].
         compute_losses ex_externals (algo ex_runstate)
           (to_device ex_externals episode (device ex_runstate)) (PyFloat (99 / 100))
           (q_estimator ex_runstate) = Inr (ex_loss episode)"
    by (simp add: ex_externals_def ex_loss_def)
  have keys: "\<forall>episode \<in> set [1, 3 :: nat]. ex_loss episode ''policy'' \<noteq> None
         \<and> ex_loss episode ''negentropy'' \<noteq> None \<and> ex_loss episode ''critic'' \<noteq> None"
    by (simp add: ex_loss_def)
  have m: "mean_loss (map ex_loss [1, 3]) ''policy'' = 2"
    "mean_loss (map ex_loss [1, 3]) ''negentropy'' = 2"
    "mean_loss (map ex_loss [1, 3]) ''critic'' = 4"
    by (simp_all add: mean_loss_def ex_loss_def)
  have w: "negentropy_schedule ex_runstate (simulation_timesteps (Runstate.xstats ex_runstate)) = 1 / 2"
    by (simp add: ex_runstate_def)
  have g: "gradient_step ex_externals a objectives = Inr (0, Suc a)" for a objectives
    by (simp add: ex_externals_def)
  from actor_critic_objectives [where episodes = "[1, 3]" and cfg = ex_config
      and discount = "PyFloat (99 / 100)" and ext = ex_externals and runstate = ex_runstate
      and loss_of = ex_loss and controlflow = ex_controlflow, OF ne disc per keys refl refl refl]
    m
  have "map_sum id fst (run_training ex_externals ex_config ex_runstate ex_controlflow [1, 3])
       = Inr [(''actor'', 3), (''critic'', 4)]"
    by (auto simp: g w)
  with ne disc per keys m w show ?thesis by simp
qed

end
